theory Spec2Isabelle
  imports Complex_Main "HOL-Library.Sublist"
begin

section \<open>JavaScript values\<close>

text \<open>
  \<^verbatim>\<open>src/config.ts\<close> is TypeScript, but what it does with a configuration is decided at run
  time: truthiness tests, \<^verbatim>\<open>typeof\<close>, \<^verbatim>\<open>Array.isArray\<close>, object spread. The
  embedding therefore works on JavaScript values. A number is an IEEE double; the code only
  compares numbers, never computes with a caller's number, so a finite double is represented
  by the real number it denotes (\<open>-0\<close> and \<open>0\<close> are both \<open>Fin 0\<close>: they are equal
  and both falsy). A function value is an opaque token: the code never calls a function
  it is given. An object is the finite map of its own properties.
\<close>

datatype jsnum = Fin real | NaN | PosInf | NegInf

datatype jsval =
    JUndefined
  | JNull
  | JBool bool
  | JNum jsnum
  | JStr string
  | JFun nat
  | JArr "jsval list"
  | JObj "string \<Rightarrow> jsval option"

type_synonym obj = "string \<Rightarrow> jsval option"

text \<open>Truthiness (ToBoolean), as used by \<^verbatim>\<open>if (x)\<close>, \<^verbatim>\<open>!x\<close>, \<^verbatim>\<open>&&\<close> and \<^verbatim>\<open>||\<close>.\<close>

fun truthy :: "jsval \<Rightarrow> bool" where
  "truthy JUndefined = False"
| "truthy JNull = False"
| "truthy (JBool b) = b"
| "truthy (JNum (Fin x)) = (x \<noteq> 0)"
| "truthy (JNum NaN) = False"
| "truthy (JNum PosInf) = True"
| "truthy (JNum NegInf) = True"
| "truthy (JStr s) = (s \<noteq> [])"
| "truthy (JFun f) = True"
| "truthy (JArr xs) = True"
| "truthy (JObj m) = True"

fun typeof :: "jsval \<Rightarrow> string" where
  "typeof JUndefined = ''undefined''"
| "typeof JNull = ''object''"
| "typeof (JBool b) = ''boolean''"
| "typeof (JNum n) = ''number''"
| "typeof (JStr s) = ''string''"
| "typeof (JFun f) = ''function''"
| "typeof (JArr xs) = ''object''"
| "typeof (JObj m) = ''object''"

text \<open>\<^verbatim>\<open>o.k\<close> on an object: the property, or \<^verbatim>\<open>undefined\<close> when \<open>o\<close> has none.\<close>

definition field :: "obj \<Rightarrow> string \<Rightarrow> jsval" where
  "field m k = (case m k of None \<Rightarrow> JUndefined | Some v \<Rightarrow> v)"

text \<open>
  \<^verbatim>\<open>v.k\<close> on any value, for the names the code reads this way (\<^verbatim>\<open>apiKey\<close>,
  \<^verbatim>\<open>credential\<close>, \<^verbatim>\<open>privateKey\<close>), none of which is a built-in member of a primitive,
  an array or a function. The code reads \<^verbatim>\<open>v.k\<close> only behind \<^verbatim>\<open>v &&\<close>, so the
  \<^verbatim>\<open>TypeError\<close> of \<^verbatim>\<open>undefined.k\<close> and \<^verbatim>\<open>null.k\<close> is never reached.
\<close>

fun propOf :: "jsval \<Rightarrow> string \<Rightarrow> jsval" where
  "propOf (JObj m) k = field m k"
| "propOf v k = JUndefined"

text \<open>\<^verbatim>\<open>a && b\<close> and \<^verbatim>\<open>a || b\<close> return one of their operands.\<close>

definition js_and :: "jsval \<Rightarrow> jsval \<Rightarrow> jsval" where
  "js_and a b = (if truthy a then b else a)"

definition js_or :: "jsval \<Rightarrow> jsval \<Rightarrow> jsval" where
  "js_or a b = (if truthy a then a else b)"

text \<open>
  \<^verbatim>\<open>v > n\<close> for a number \<open>n\<close>: the comparison is numeric, after ToNumber on \<open>v\<close>.
  \<^verbatim>\<open>cookies.maxAge\<close> is a number or absent. ToNumber of a string parses it and ToNumber
  of an array or object goes through its string form; neither is modelled, and the
  comparison is left unspecified there (no statement below depends on its value).
\<close>

fun gt :: "jsval \<Rightarrow> real \<Rightarrow> bool" where
  "gt (JNum (Fin x)) n = (n < x)"
| "gt (JNum NaN) n = False"
| "gt (JNum PosInf) n = True"
| "gt (JNum NegInf) n = False"
| "gt JUndefined n = False"
| "gt JNull n = (n < 0)"
| "gt (JBool b) n = (n < (if b then 1 else 0))"
| "gt (JFun f) n = False"

text \<open>The exceptions of the module: \<^verbatim>\<open>new Error(message)\<close>, and the engine's TypeError.\<close>

datatype error = Error string | TypeError

text \<open>
  \<^verbatim>\<open>v.startsWith(p)\<close>. On a string it is the prefix test. A primitive that is not a
  string, an array and a function token have no \<^verbatim>\<open>startsWith\<close>, and the call raises
  TypeError. An object may carry a \<^verbatim>\<open>startsWith\<close> of its own, which the code would then
  call; what that call answers is left unspecified. The declared type of
  \<^verbatim>\<open>firebaseAuthEmulatorHost\<close> is string, and every statement below about the outcome of
  a validation assumes a host of that type (\<open>hostTyped\<close>).
\<close>

fun startsWith :: "jsval \<Rightarrow> string \<Rightarrow> error + bool" where
  "startsWith (JStr s) p = Inr (take (length p) s = p)"
| "startsWith JUndefined p = Inl TypeError"
| "startsWith JNull p = Inl TypeError"
| "startsWith (JBool b) p = Inl TypeError"
| "startsWith (JNum n) p = Inl TypeError"
| "startsWith (JFun f) p = Inl TypeError"
| "startsWith (JArr xs) p = Inl TypeError"

text \<open>\<^verbatim>\<open>xs.indexOf(x)\<close>: the first position of \<open>x\<close>, or \<open>-1\<close>.\<close>

fun indexOf :: "'a list \<Rightarrow> 'a \<Rightarrow> int" where
  "indexOf [] x = - 1"
| "indexOf (y # ys) x =
     (if y = x then 0 else (let i = indexOf ys x in if i < 0 then - 1 else i + 1))"

text \<open>\<^verbatim>\<open>xs.join(sep)\<close> on a list of strings.\<close>

fun join :: "string list \<Rightarrow> string \<Rightarrow> string" where
  "join [] sep = []"
| "join [x] sep = x"
| "join (x # y # ys) sep = x @ sep @ join (y # ys) sep"

text \<open>The decimal form of a natural number, as a template literal prints an integer.\<close>

function decimal :: "nat \<Rightarrow> string" where
  "decimal n =
     (if n < 10 then [''0123456789'' ! n]
      else decimal (n div 10) @ [''0123456789'' ! (n mod 10)])"
  by pat_completeness auto
termination
  by (relation "measure id") auto

declare decimal.simps [simp del]

text \<open>
  Object spread \<^verbatim>\<open>{...v}\<close>: the own enumerable properties of \<open>v\<close>. Nothing for
  \<^verbatim>\<open>undefined\<close>, \<^verbatim>\<open>null\<close>, a boolean, a number or a function; the indexed elements for
  an array, the indexed characters for a string.
\<close>

definition indexed :: "jsval list \<Rightarrow> obj" where
  "indexed xs = map_of (zip (map decimal [0..<length xs]) xs)"

fun spread :: "jsval \<Rightarrow> obj" where
  "spread (JObj m) = m"
| "spread (JArr xs) = indexed xs"
| "spread (JStr s) = indexed (map (\<lambda>c. JStr [c]) s)"
| "spread v = Map.empty"

section \<open>The collaborators of the module\<close>

text \<open>
  \<^verbatim>\<open>isClientSide()\<close> and \<^verbatim>\<open>process.env.FIREBASE_AUTH_EMULATOR_HOST\<close> are read from the
  surroundings; an environment variable is a string or is unset.
\<close>

record env =
  isClientSide :: bool
  FIREBASE_AUTH_EMULATOR_HOST :: "string option"

definition envHost :: "env \<Rightarrow> jsval" where
  "envHost e = (case FIREBASE_AUTH_EMULATOR_HOST e of None \<Rightarrow> JUndefined | Some s \<Rightarrow> JStr s)"

text \<open>
  The module state: \<^verbatim>\<open>let config: ConfigMerged\<close>, which starts \<^verbatim>\<open>undefined\<close>, and the
  lines handed to the logger.
\<close>

record state =
  config :: jsval
  debugLog :: "jsval list list"

definition initialState :: state where
  "initialState = \<lparr>config = JUndefined, debugLog = []\<rparr>"

text \<open>
  Modelled from the spec: \<^verbatim>\<open>src/logDebug\<close> is imported by \<^verbatim>\<open>config.ts\<close> and is not
  among the sources. The spec describes it as an external logging collaborator that receives
  a debug log line; the model records the arguments of each call, in order.
\<close>

definition logDebug :: "jsval list \<Rightarrow> state \<Rightarrow> state" where
  "logDebug args s = s\<lparr>debugLog := debugLog s @ [args]\<rparr>"

section \<open>validateConfig\<close>

definition TWO_WEEKS_IN_MS :: nat where
  "TWO_WEEKS_IN_MS = 14 * 60 * 60 * 24 * 1000"

subsection \<open>The messages\<close>

definition msgLoginWithHandler :: string where
  \<open>msgLoginWithHandler =
    ''The "loginAPIEndpoint" setting should not be set if you are using a "tokenChangedHandler".''\<close>

definition msgLogoutWithHandler :: string where
  \<open>msgLogoutWithHandler =
    ''The "logoutAPIEndpoint" setting should not be set if you are using a "tokenChangedHandler".''\<close>

definition msgOnLoginErrorWithHandler :: string where
  \<open>msgOnLoginErrorWithHandler =
    ''The "onLoginRequestError" setting should not be set if you are using a "tokenChangedHandler".''\<close>

definition msgOnLogoutErrorWithHandler :: string where
  \<open>msgOnLogoutErrorWithHandler =
    ''The "onLogoutRequestError" setting should not be set if you are using a "tokenChangedHandler".''\<close>

definition msgApiKeyRequired :: string where
  \<open>msgApiKeyRequired = ''The "firebaseClientInitConfig.apiKey" value is required.''\<close>

definition msgHostPrefix :: string where
  \<open>msgHostPrefix =
    ''The firebaseAuthEmulatorHost should be set without a prefix (e.g., localhost:9099)''\<close>

definition msgOnVerifyTokenErrorType :: string where
  \<open>msgOnVerifyTokenErrorType =
    ''Invalid next-firebase-auth options: The "onVerifyTokenError" setting must be a function.''\<close>

definition msgOnTokenRefreshErrorType :: string where
  \<open>msgOnTokenRefreshErrorType =
    ''Invalid next-firebase-auth options: The "onTokenRefreshError" setting must be a function.''\<close>

definition msgOnLoginRequestErrorType :: string where
  \<open>msgOnLoginRequestErrorType =
    ''Invalid next-firebase-auth options: The "onLoginRequestError" setting must be a function.''\<close>

definition msgOnLogoutRequestErrorType :: string where
  \<open>msgOnLogoutRequestErrorType =
    ''Invalid next-firebase-auth options: The "onLogoutRequestError" setting must be a function.''\<close>

definition msgLoginRequired :: string where
  \<open>msgLoginRequired = ''The "loginAPIEndpoint" setting is required.''\<close>

definition msgLogoutRequired :: string where
  \<open>msgLogoutRequired = ''The "logoutAPIEndpoint" setting is required.''\<close>

definition msgPrivateKeyOnClient :: string where
  \<open>msgPrivateKeyOnClient =
    ''The "firebaseAdminInitConfig" private key setting should not be available on the client side.''\<close>

definition msgCookieKeysOnClient :: string where
  \<open>msgCookieKeysOnClient =
    ''The "cookies.keys" setting should not be available on the client side.''\<close>

definition msgCookieNameRequired :: string where
  \<open>msgCookieNameRequired = ''The "cookies.name" setting is required on the server side.''\<close>

definition msgEnvHostUnset :: string where
  \<open>msgEnvHostUnset =
    ''The "FIREBASE_AUTH_EMULATOR_HOST" environment variable should be set if you are using the "firebaseAuthEmulatorHost" option''\<close>

definition msgEnvHostMismatch :: string where
  \<open>msgEnvHostMismatch =
    ''The "FIREBASE_AUTH_EMULATOR_HOST" environment variable should be the same as the host set in the config''\<close>

definition msgMaxAge :: string where
  \<open>msgMaxAge =
    ''The "cookies.maxAge" setting must be less than two weeks ('' @ decimal TWO_WEEKS_IN_MS @ '' ms).''\<close>

subsection \<open>The checks, in source order\<close>

text \<open>
  \<^verbatim>\<open>validateConfig\<close> pushes onto \<^verbatim>\<open>errorMessages\<close> in one pass. Each definition below
  is one commented block of the function and gives the messages that block pushes, in order;
  \<open>validateConfig\<close> appends the blocks in the order of the source.
\<close>

text \<open>Lines 14 to 35: a \<^verbatim>\<open>tokenChangedHandler\<close> excludes the login and logout settings.\<close>

definition tokenChangedHandlerErrors :: "obj \<Rightarrow> string list" where
  "tokenChangedHandlerErrors mergedConfig =
     (if truthy (field mergedConfig ''tokenChangedHandler'') then
        (if truthy (field mergedConfig ''loginAPIEndpoint'') then [msgLoginWithHandler] else [])
        @ (if truthy (field mergedConfig ''logoutAPIEndpoint'') then [msgLogoutWithHandler] else [])
        @ (if truthy (field mergedConfig ''onLoginRequestError'')
           then [msgOnLoginErrorWithHandler] else [])
        @ (if truthy (field mergedConfig ''onLogoutRequestError'')
           then [msgOnLogoutErrorWithHandler] else [])
      else [])"

text \<open>Lines 39 to 48: the public API key is required.\<close>

definition apiKeyErrors :: "obj \<Rightarrow> string list" where
  "apiKeyErrors mergedConfig =
     (if \<not> truthy (js_and (field mergedConfig ''firebaseClientInitConfig'')
                          (propOf (field mergedConfig ''firebaseClientInitConfig'') ''apiKey''))
      then [msgApiKeyRequired] else [])"

text \<open>
  Lines 51 to 58: the emulator host. \<^verbatim>\<open>startsWith\<close> is called only on a truthy host, and
  raises when that host is not a string.
\<close>

definition hostPrefixErrors :: "obj \<Rightarrow> error + string list" where
  "hostPrefixErrors mergedConfig =
     (if truthy (field mergedConfig ''firebaseAuthEmulatorHost'') then
        (case startsWith (field mergedConfig ''firebaseAuthEmulatorHost'') ''http'' of
           Inl e \<Rightarrow> Inl e
         | Inr b \<Rightarrow> Inr (if b then [msgHostPrefix] else []))
      else Inr [])"

text \<open>Lines 61 to 81: the four error handlers are functions or undefined.\<close>

definition funcOrUndefArr :: "string list" where
  "funcOrUndefArr = [''function'', ''undefined'']"

definition handlerTypeErrors :: "obj \<Rightarrow> string list" where
  "handlerTypeErrors mergedConfig =
     (if indexOf funcOrUndefArr (typeof (field mergedConfig ''onVerifyTokenError'')) < 0
      then [msgOnVerifyTokenErrorType] else [])
     @ (if indexOf funcOrUndefArr (typeof (field mergedConfig ''onTokenRefreshError'')) < 0
        then [msgOnTokenRefreshErrorType] else [])
     @ (if indexOf funcOrUndefArr (typeof (field mergedConfig ''onLoginRequestError'')) < 0
        then [msgOnLoginRequestErrorType] else [])
     @ (if indexOf funcOrUndefArr (typeof (field mergedConfig ''onLogoutRequestError'')) < 0
        then [msgOnLogoutRequestErrorType] else [])"

text \<open>
  Lines 85 to 89. For an array, \<^verbatim>\<open>keys.filter\<close> is the array method and is truthy, so
  the value is \<^verbatim>\<open>keys.length && keys.filter(item => item !== undefined).length\<close>; for
  anything else it is \<^verbatim>\<open>!!keys\<close>.
\<close>

definition areCookieKeysDefined :: "jsval \<Rightarrow> jsval" where
  "areCookieKeysDefined keys =
     (case keys of
        JArr xs \<Rightarrow>
          js_and (JNum (Fin (real (length xs))))
                 (JNum (Fin (real (length (filter (\<lambda>item. item \<noteq> JUndefined) xs)))))
      | _ \<Rightarrow> JBool (truthy keys))"

text \<open>Lines 96 to 118: the client side.\<close>

definition clientErrors :: "obj \<Rightarrow> obj \<Rightarrow> string list" where
  "clientErrors mergedConfig cookies =
     (if \<not> truthy (field mergedConfig ''tokenChangedHandler'') then
        (if \<not> truthy (field mergedConfig ''loginAPIEndpoint'') then [msgLoginRequired] else [])
        @ (if \<not> truthy (field mergedConfig ''logoutAPIEndpoint'') then [msgLogoutRequired] else [])
      else [])
     @ (if truthy
            (js_and
               (js_and (field mergedConfig ''firebaseAdminInitConfig'')
                       (propOf (field mergedConfig ''firebaseAdminInitConfig'') ''credential''))
               (propOf (propOf (field mergedConfig ''firebaseAdminInitConfig'') ''credential'')
                     ''privateKey''))
        then [msgPrivateKeyOnClient] else [])
     @ (if truthy (areCookieKeysDefined (field cookies ''keys''))
        then [msgCookieKeysOnClient] else [])"

text \<open>Lines 126 to 161: the server side.\<close>

definition serverErrors :: "env \<Rightarrow> obj \<Rightarrow> obj \<Rightarrow> string list" where
  "serverErrors e mergedConfig cookies =
     (if \<not> truthy (field cookies ''name'') then [msgCookieNameRequired] else [])
     @ (if truthy (field mergedConfig ''firebaseAuthEmulatorHost'') then
          (if \<not> truthy (envHost e) then [msgEnvHostUnset]
           else if envHost e \<noteq> field mergedConfig ''firebaseAuthEmulatorHost''
           then [msgEnvHostMismatch] else [])
        else [])
     @ (if \<not> truthy (field cookies ''maxAge'')
           \<or> gt (field cookies ''maxAge'') (real TWO_WEEKS_IN_MS)
        then [msgMaxAge] else [])"

record ValidationResult =
  isValid :: bool
  errors :: "string list"

text \<open>
  \<^verbatim>\<open>mergedConfig.cookies\<close> is read at line 85. \<^verbatim>\<open>setConfig\<close>, the only caller, always
  passes an object literal there; for \<^verbatim>\<open>undefined\<close> or \<^verbatim>\<open>null\<close> the destructuring
  raises TypeError, and the model answers TypeError for every value that is not an object.
  An exception discards the messages collected so far.
\<close>

definition validateConfig :: "env \<Rightarrow> obj \<Rightarrow> error + ValidationResult" where
  "validateConfig e mergedConfig =
     (case hostPrefixErrors mergedConfig of
        Inl err \<Rightarrow> Inl err
      | Inr hostErrors \<Rightarrow>
          (case field mergedConfig ''cookies'' of
             JObj cookies \<Rightarrow>
               (let errorMessages =
                      tokenChangedHandlerErrors mergedConfig
                      @ apiKeyErrors mergedConfig
                      @ hostErrors
                      @ handlerTypeErrors mergedConfig
                      @ (if isClientSide e then clientErrors mergedConfig cookies
                         else serverErrors e mergedConfig cookies)
                in Inr \<lparr>isValid = (length errorMessages = 0), errors = errorMessages\<rparr>)
           | _ \<Rightarrow> Inl TypeError))"

section \<open>replacePrivateValues\<close>

text \<open>
  A later entry of an object literal overrides an earlier one of the same name, so the
  literal is read left to right: \<open>m(k \<mapsto> v)\<close> for an entry \<^verbatim>\<open>k: v\<close> and \<open>m ++ spread v\<close>
  for an entry \<^verbatim>\<open>...v\<close>.
\<close>

definition replacePrivateValues :: "obj \<Rightarrow> obj" where
  "replacePrivateValues unredactedConfig =
     (let admin = field unredactedConfig ''firebaseAdminInitConfig'';
          credential = propOf admin ''credential''
      in (unredactedConfig
            (''cookies'' \<mapsto>
               JObj ((spread (field unredactedConfig ''cookies''))
                       (''keys'' \<mapsto> JArr [JStr ''hidden'']))))
         ++ spread
              (js_and admin
                 (JObj [''firebaseAdminInitConfig'' \<mapsto>
                    JObj (spread admin
                          ++ spread
                               (js_and credential
                                  (JObj [''credential'' \<mapsto>
                                     JObj ((spread credential)
                                             (''privateKey'' \<mapsto> JStr ''hidden'',
                                              ''clientEmail'' \<mapsto> JStr ''hidden''))])))])))"

section \<open>setConfig and getConfig\<close>

text \<open>
  Lines 204 to 215: the merge. \<^verbatim>\<open>defaultConfig\<close> is imported from \<^verbatim>\<open>./configTypes\<close>,
  which is not among the sources, and is a parameter here.
\<close>

definition mergedConfig :: "obj \<Rightarrow> obj \<Rightarrow> obj" where
  "mergedConfig defaultConfig userConfig =
     (let cookieOptions = field userConfig ''cookies'';
          otherUserConfig = userConfig(''cookies'' := None)
      in (defaultConfig ++ otherUserConfig)
           (''cookies'' \<mapsto>
              JObj (spread (field defaultConfig ''cookies'')
                    ++ spread (js_or cookieOptions (JObj Map.empty)))))"

text \<open>
  \<^verbatim>\<open>setConfig\<close> logs, merges, validates, and either throws or assigns \<^verbatim>\<open>config\<close>. The
  result pairs the outcome of the call with the state it leaves.
\<close>

definition setConfig :: "obj \<Rightarrow> env \<Rightarrow> obj \<Rightarrow> state \<Rightarrow> (error + unit) \<times> state" where
  "setConfig defaultConfig e userConfig s =
     (let s1 = logDebug [JStr ''[init] Setting config with provided value:'',
                         JObj (replacePrivateValues userConfig)] s
      in case validateConfig e (mergedConfig defaultConfig userConfig) of
           Inl err \<Rightarrow> (Inl err, s1)
         | Inr r \<Rightarrow>
             if \<not> isValid r
             then (Inl (Error (''Invalid next-firebase-auth options: '' @ join (errors r) '' '')), s1)
             else (Inr (), s1\<lparr>config := JObj (mergedConfig defaultConfig userConfig)\<rparr>))"

definition getConfig :: "state \<Rightarrow> error + jsval" where
  "getConfig s =
     (if \<not> truthy (config s)
      then Inl (Error ''next-firebase-auth must be initialized before rendering.'')
      else Inr (config s))"

text \<open>
  A run of the module: \<^verbatim>\<open>setConfig\<close> called once per entry, each call in its own
  surroundings, an exception being caught by the caller.
\<close>

fun setConfigs :: "obj \<Rightarrow> (env \<times> obj) list \<Rightarrow> state \<Rightarrow> state" where
  "setConfigs defaultConfig [] s = s"
| "setConfigs defaultConfig ((e, userConfig) # calls) s =
     setConfigs defaultConfig calls (snd (setConfig defaultConfig e userConfig s))"

text \<open>The declared type of \<^verbatim>\<open>firebaseAuthEmulatorHost\<close>: a string, or left out.\<close>

definition hostTyped :: "obj \<Rightarrow> bool" where
  "hostTyped cfg =
     (case field cfg ''firebaseAuthEmulatorHost'' of
        JStr h \<Rightarrow> True
      | v \<Rightarrow> \<not> truthy v)"

section \<open>Auxiliary definitions for the proofs\<close>

text \<open>
  The messages of a validation that does not raise: the host check on a host of the
  declared type, the branch for the execution context, and the whole list.
\<close>

definition hostErrors :: "obj \<Rightarrow> string list" where
  "hostErrors cfg =
     (case field cfg ''firebaseAuthEmulatorHost'' of
        JStr h \<Rightarrow> if h \<noteq> [] \<and> take (length ''http'') h = ''http'' then [msgHostPrefix] else []
      | _ \<Rightarrow> [])"

definition restErrors :: "env \<Rightarrow> obj \<Rightarrow> string list" where
  "restErrors e cfg =
     (if isClientSide e then clientErrors cfg (spread (field cfg ''cookies''))
      else serverErrors e cfg (spread (field cfg ''cookies'')))"

definition allErrors :: "env \<Rightarrow> obj \<Rightarrow> string list" where
  "allErrors e cfg =
     tokenChangedHandlerErrors cfg @ apiKeyErrors cfg @ hostErrors cfg
     @ handlerTypeErrors cfg @ restErrors e cfg"

text \<open>A call of \<^verbatim>\<open>setConfig\<close> that passes validation.\<close>

definition accepts :: "obj \<Rightarrow> env \<times> obj \<Rightarrow> bool" where
  "accepts defaultConfig call =
     (case validateConfig (fst call) (mergedConfig defaultConfig (snd call)) of
        Inl err \<Rightarrow> False
      | Inr r \<Rightarrow> isValid r)"

text \<open>
  The wording of the specification, for comparison with the code: a host ``includes a URL
  scheme prefix'' when it begins with a scheme name (a letter, then letters, digits,
  \<open>+\<close>, \<open>-\<close> or \<open>.\<close>) followed by \<open>://\<close>. The specification's own example
  \<open>localhost:9099\<close> has none.
\<close>

definition specSchemePrefix :: "string \<Rightarrow> bool" where
  "specSchemePrefix host =
     (let scheme = takeWhile (\<lambda>c. c \<noteq> CHR '':'') host;
          rest = dropWhile (\<lambda>c. c \<noteq> CHR '':'') host
      in scheme \<noteq> []
         \<and> hd scheme \<in> set ''abcdefghijklmnopqrstuvwxyzABCDEFGHIJKLMNOPQRSTUVWXYZ''
         \<and> list_all
              (\<lambda>c. c \<in> set ''abcdefghijklmnopqrstuvwxyzABCDEFGHIJKLMNOPQRSTUVWXYZ0123456789+-.'')
              scheme
         \<and> take (length ''://'') rest = ''://'')"

text \<open>
  A caller's configuration with the secrets deleted: \<^verbatim>\<open>keys\<close> removed from the cookie
  options, \<^verbatim>\<open>privateKey\<close> and \<^verbatim>\<open>clientEmail\<close> removed from the admin credential.
\<close>

definition withoutSecrets :: "obj \<Rightarrow> obj" where
  "withoutSecrets u =
     (u(''cookies'' :=
          (case field u ''cookies'' of
             JObj c \<Rightarrow> Some (JObj (c(''keys'' := None)))
           | _ \<Rightarrow> u ''cookies'')))
      (''firebaseAdminInitConfig'' :=
          (case field u ''firebaseAdminInitConfig'' of
             JObj a \<Rightarrow>
               (case field a ''credential'' of
                  JObj cr \<Rightarrow>
                    Some (JObj (a(''credential'' \<mapsto>
                                   JObj (cr(''privateKey'' := None, ''clientEmail'' := None)))))
                | _ \<Rightarrow> u ''firebaseAdminInitConfig'')
           | _ \<Rightarrow> u ''firebaseAdminInitConfig''))"

subsection \<open>Concrete configurations\<close>

text \<open>
  A small baseline and a caller's configuration for a server, used to run the definitions.
  The baseline stands in for \<^verbatim>\<open>defaultConfig\<close>; every general statement below holds for
  any baseline.
\<close>

definition exampleDefaultConfig :: obj where
  "exampleDefaultConfig =
     [''debug'' \<mapsto> JBool False,
      ''onVerifyTokenError'' \<mapsto> JFun 0,
      ''onTokenRefreshError'' \<mapsto> JFun 1,
      ''cookies'' \<mapsto>
        JObj [''httpOnly'' \<mapsto> JBool True,
              ''maxAge'' \<mapsto> JNum (Fin 604800000),
              ''path'' \<mapsto> JStr ''/'']]"

definition exampleUserConfig :: obj where
  "exampleUserConfig =
     [''firebaseClientInitConfig'' \<mapsto> JObj [''apiKey'' \<mapsto> JStr ''public-key''],
      ''firebaseAdminInitConfig'' \<mapsto>
        JObj [''credential'' \<mapsto>
                JObj [''projectId'' \<mapsto> JStr ''demo'',
                      ''clientEmail'' \<mapsto> JStr ''admin@demo.example'',
                      ''privateKey'' \<mapsto> JStr ''PRIVATE-KEY'']],
      ''loginAPIEndpoint'' \<mapsto> JStr ''/api/login'',
      ''logoutAPIEndpoint'' \<mapsto> JStr ''/api/logout'',
      ''cookies'' \<mapsto>
        JObj [''name'' \<mapsto> JStr ''Demo'',
              ''keys'' \<mapsto> JArr [JStr ''signing-secret'']]]"

definition exampleServer :: env where
  "exampleServer = \<lparr>isClientSide = False, FIREBASE_AUTH_EMULATOR_HOST = None\<rparr>"

definition exampleClient :: env where
  "exampleClient = \<lparr>isClientSide = True, FIREBASE_AUTH_EMULATOR_HOST = None\<rparr>"

section \<open>Facts about the definitions\<close>

lemma decimal_TWO_WEEKS_IN_MS: "decimal TWO_WEEKS_IN_MS = ''1209600000''"
  by (simp add: TWO_WEEKS_IN_MS_def decimal.simps)

lemma msgMaxAge_text:
  \<open>msgMaxAge = ''The "cookies.maxAge" setting must be less than two weeks (1209600000 ms).''\<close>
  by (simp add: msgMaxAge_def decimal_TWO_WEEKS_IN_MS)

lemmas msg_defs =
  msgLoginWithHandler_def msgLogoutWithHandler_def msgOnLoginErrorWithHandler_def
  msgOnLogoutErrorWithHandler_def msgApiKeyRequired_def msgHostPrefix_def
  msgOnVerifyTokenErrorType_def msgOnTokenRefreshErrorType_def msgOnLoginRequestErrorType_def
  msgOnLogoutRequestErrorType_def msgLoginRequired_def msgLogoutRequired_def
  msgPrivateKeyOnClient_def msgCookieKeysOnClient_def msgCookieNameRequired_def
  msgEnvHostUnset_def msgEnvHostMismatch_def msgMaxAge_text

lemma messages_distinct:
  "distinct [msgLoginWithHandler, msgLogoutWithHandler, msgOnLoginErrorWithHandler,
     msgOnLogoutErrorWithHandler, msgApiKeyRequired, msgHostPrefix, msgOnVerifyTokenErrorType,
     msgOnTokenRefreshErrorType, msgOnLoginRequestErrorType, msgOnLogoutRequestErrorType,
     msgLoginRequired, msgLogoutRequired, msgPrivateKeyOnClient, msgCookieKeysOnClient,
     msgCookieNameRequired, msgEnvHostUnset, msgEnvHostMismatch, msgMaxAge]"
  unfolding msg_defs by simp

lemma join_sublist: "m \<in> set xs \<Longrightarrow> sublist m (join xs sep)"
proof (induction xs sep rule: join.induct)
  case (1 sep)
  then show ?case by simp
next
  case (2 x sep)
  then show ?case by simp
next
  case (3 x y ys sep)
  show ?case
  proof (cases "m = x")
    case True
    then show ?thesis by simp
  next
    case False
    with 3 have "sublist m (join (y # ys) sep)" by simp
    then obtain ps ss where "join (y # ys) sep = ps @ m @ ss"
      unfolding sublist_def by blast
    then have "join (x # y # ys) sep = (x @ sep @ ps) @ m @ ss" by simp
    then show ?thesis unfolding sublist_def by blast
  qed
qed

lemma messages_distinct_rev:
  "distinct (rev [msgLoginWithHandler, msgLogoutWithHandler, msgOnLoginErrorWithHandler,
     msgOnLogoutErrorWithHandler, msgApiKeyRequired, msgHostPrefix, msgOnVerifyTokenErrorType,
     msgOnTokenRefreshErrorType, msgOnLoginRequestErrorType, msgOnLogoutRequestErrorType,
     msgLoginRequired, msgLogoutRequired, msgPrivateKeyOnClient, msgCookieKeysOnClient,
     msgCookieNameRequired, msgEnvHostUnset, msgEnvHostMismatch, msgMaxAge])"
  using messages_distinct by (simp only: distinct_rev)

lemmas messages_neq = messages_distinct [simplified] messages_distinct_rev [simplified]

lemma tokenChangedHandlerErrors_set:
  "set (tokenChangedHandlerErrors cfg) \<subseteq>
     {msgLoginWithHandler, msgLogoutWithHandler, msgOnLoginErrorWithHandler,
      msgOnLogoutErrorWithHandler}"
  by (auto simp: tokenChangedHandlerErrors_def)

lemma apiKeyErrors_set: "set (apiKeyErrors cfg) \<subseteq> {msgApiKeyRequired}"
  by (auto simp: apiKeyErrors_def)

lemma handlerTypeErrors_set:
  "set (handlerTypeErrors cfg) \<subseteq>
     {msgOnVerifyTokenErrorType, msgOnTokenRefreshErrorType, msgOnLoginRequestErrorType,
      msgOnLogoutRequestErrorType}"
  by (auto simp: handlerTypeErrors_def)

lemma clientErrors_set:
  "set (clientErrors cfg c) \<subseteq>
     {msgLoginRequired, msgLogoutRequired, msgPrivateKeyOnClient, msgCookieKeysOnClient}"
  by (auto simp: clientErrors_def)

lemma serverErrors_set:
  "set (serverErrors e cfg c) \<subseteq>
     {msgCookieNameRequired, msgEnvHostUnset, msgEnvHostMismatch, msgMaxAge}"
  by (auto simp: serverErrors_def)

lemma hostPrefixErrors_typed: "hostTyped cfg \<Longrightarrow> hostPrefixErrors cfg = Inr (hostErrors cfg)"
  by (auto simp: hostTyped_def hostPrefixErrors_def hostErrors_def split: jsval.splits)

lemma hostErrors_set: "set (hostErrors cfg) \<subseteq> {msgHostPrefix}"
  by (auto simp: hostErrors_def split: jsval.splits)

lemma mergedConfig_cookies:
  "field (mergedConfig d u) ''cookies'' =
     JObj (spread (field d ''cookies'') ++ spread (js_or (field u ''cookies'') (JObj Map.empty)))"
  by (simp add: mergedConfig_def field_def)

lemma validateConfig_merged:
  assumes "cfg = mergedConfig d u" and "hostTyped cfg"
  shows "validateConfig e cfg = Inr \<lparr>isValid = (allErrors e cfg = []), errors = allErrors e cfg\<rparr>"
  using assms
  by (simp add: validateConfig_def hostPrefixErrors_typed mergedConfig_cookies allErrors_def
      restErrors_def Let_def)

lemma count_outside: "set xs \<subseteq> S \<Longrightarrow> m \<notin> S \<Longrightarrow> count_list xs m = 0"
  by (auto intro: count_notin)

lemma count_tokenChangedHandlerErrors_other:
  "m \<notin> {msgLoginWithHandler, msgLogoutWithHandler, msgOnLoginErrorWithHandler,
          msgOnLogoutErrorWithHandler}
   \<Longrightarrow> count_list (tokenChangedHandlerErrors cfg) m = 0"
  by (rule count_outside [OF tokenChangedHandlerErrors_set])

lemma count_apiKeyErrors_other:
  "m \<notin> {msgApiKeyRequired} \<Longrightarrow> count_list (apiKeyErrors cfg) m = 0"
  by (rule count_outside [OF apiKeyErrors_set])

lemma count_hostErrors_other:
  "m \<notin> {msgHostPrefix} \<Longrightarrow> count_list (hostErrors cfg) m = 0"
  by (rule count_outside [OF hostErrors_set])

lemma count_handlerTypeErrors_other:
  "m \<notin> {msgOnVerifyTokenErrorType, msgOnTokenRefreshErrorType, msgOnLoginRequestErrorType,
          msgOnLogoutRequestErrorType}
   \<Longrightarrow> count_list (handlerTypeErrors cfg) m = 0"
  by (rule count_outside [OF handlerTypeErrors_set])

lemma count_restErrors_other:
  "m \<notin> {msgLoginRequired, msgLogoutRequired, msgPrivateKeyOnClient, msgCookieKeysOnClient,
          msgCookieNameRequired, msgEnvHostUnset, msgEnvHostMismatch, msgMaxAge}
   \<Longrightarrow> count_list (restErrors e cfg) m = 0"
  using clientErrors_set [of cfg "spread (field cfg ''cookies'')"]
    serverErrors_set [of e cfg "spread (field cfg ''cookies'')"]
  by (auto simp: restErrors_def intro!: count_notin)

lemma count_allErrors_handler:
  "m \<in> {msgLoginWithHandler, msgLogoutWithHandler, msgOnLoginErrorWithHandler,
          msgOnLogoutErrorWithHandler}
   \<Longrightarrow> count_list (allErrors e cfg) m = count_list (tokenChangedHandlerErrors cfg) m"
  by (auto simp: messages_neq allErrors_def count_apiKeyErrors_other count_hostErrors_other
      count_handlerTypeErrors_other count_restErrors_other)

lemma count_allErrors_rest:
  "m \<in> {msgLoginRequired, msgLogoutRequired, msgPrivateKeyOnClient, msgCookieKeysOnClient,
          msgCookieNameRequired, msgEnvHostUnset, msgEnvHostMismatch, msgMaxAge}
   \<Longrightarrow> count_list (allErrors e cfg) m = count_list (restErrors e cfg) m"
  by (auto simp: messages_neq allErrors_def count_apiKeyErrors_other count_hostErrors_other
      count_handlerTypeErrors_other count_tokenChangedHandlerErrors_other)

lemma count_allErrors_host:
  "count_list (allErrors e cfg) msgHostPrefix = count_list (hostErrors cfg) msgHostPrefix"
  by (simp add: messages_neq allErrors_def count_apiKeyErrors_other
      count_handlerTypeErrors_other count_tokenChangedHandlerErrors_other count_restErrors_other)

lemma setConfig_invalid:
  assumes "cfg = mergedConfig d u" and "hostTyped cfg" and "m \<in> set (allErrors e cfg)"
  shows "\<exists>detail. fst (setConfig d e u s)
            = Inl (Error (''Invalid next-firebase-auth options: '' @ detail))
          \<and> sublist m detail"
proof -
  have v: "validateConfig e (mergedConfig d u)
      = Inr \<lparr>isValid = (allErrors e cfg = []), errors = allErrors e cfg\<rparr>"
    using validateConfig_merged [OF assms(1,2)] assms(1) by simp
  have ne: "allErrors e cfg \<noteq> []" using assms(3) by auto
  have "fst (setConfig d e u s)
      = Inl (Error (''Invalid next-firebase-auth options: '' @ join (allErrors e cfg) '' ''))"
    using ne by (simp add: setConfig_def v Let_def)
  moreover have "sublist m (join (allErrors e cfg) '' '')"
    using assms(3) by (rule join_sublist)
  ultimately show ?thesis by blast
qed

lemma count_restErrors_maxAge:
  "field cfg ''cookies'' = JObj c \<Longrightarrow>
   count_list (restErrors e cfg) msgMaxAge
     = (if \<not> isClientSide e
           \<and> (\<not> truthy (propOf (field cfg ''cookies'') ''maxAge'')
                \<or> gt (propOf (field cfg ''cookies'') ''maxAge'') (real TWO_WEEKS_IN_MS))
        then 1 else 0)"
  by (simp add: messages_neq restErrors_def serverErrors_def
      count_outside [OF clientErrors_set])

lemmas eval_defs =
  validateConfig_def hostPrefixErrors_def tokenChangedHandlerErrors_def apiKeyErrors_def
  handlerTypeErrors_def funcOrUndefArr_def clientErrors_def serverErrors_def
  areCookieKeysDefined_def mergedConfig_def field_def js_and_def js_or_def envHost_def
  map_add_def TWO_WEEKS_IN_MS_def Let_def
  exampleDefaultConfig_def exampleUserConfig_def exampleServer_def exampleClient_def

lemma example_valid_server:
  "validateConfig exampleServer (mergedConfig exampleDefaultConfig exampleUserConfig)
     = Inr \<lparr>isValid = True, errors = []\<rparr>"
  by (simp add: eval_defs)

lemma take_eq_prefix: "(take (length p) s = p) = prefix p s"
  by (metis append_take_drop_id prefix_def append_eq_conv_conj)

lemma count_restErrors_env:
  assumes "field cfg ''firebaseAuthEmulatorHost'' = JStr h" and "h \<noteq> []"
    and "\<not> isClientSide e"
  shows "count_list (restErrors e cfg) msgEnvHostUnset = (if \<not> truthy (envHost e) then 1 else 0)"
    and "count_list (restErrors e cfg) msgEnvHostMismatch
           = (if truthy (envHost e) \<and> envHost e \<noteq> JStr h then 1 else 0)"
  using assms by (simp_all add: messages_neq restErrors_def serverErrors_def)

lemma hostTyped_string: "field cfg ''firebaseAuthEmulatorHost'' = JStr h \<Longrightarrow> hostTyped cfg"
  by (simp add: hostTyped_def)

lemma setConfig_outcome: "(fst (setConfig d e u s) = Inr ()) = accepts d (e, u)"
  by (simp add: setConfig_def accepts_def Let_def split: sum.splits)

lemma setConfig_config:
  "config (snd (setConfig d e u s))
     = (if accepts d (e, u) then JObj (mergedConfig d u) else config s)"
  by (simp add: setConfig_def accepts_def logDebug_def Let_def split: sum.splits)

lemma setConfigs_config:
  "config (setConfigs d calls s)
     = (if filter (accepts d) calls = [] then config s
        else JObj (mergedConfig d (snd (last (filter (accepts d) calls)))))"
proof (induction calls arbitrary: s)
  case Nil
  then show ?case by simp
next
  case (Cons call calls)
  obtain e u where call: "call = (e, u)" by (cases call)
  show ?case
    by (simp add: call Cons.IH setConfig_config)
qed

lemma setConfig_rejects:
  assumes "\<not> accepts d (e, u)"
  shows "\<exists>err. fst (setConfig d e u s) = Inl err"
proof (cases "fst (setConfig d e u s)")
  case (Inl err)
  then show ?thesis by blast
next
  case (Inr x)
  then have "fst (setConfig d e u s) = Inr ()" by simp
  with assms show ?thesis by (simp add: setConfig_outcome)
qed

lemma example_accepts:
  "accepts exampleDefaultConfig (exampleServer, exampleUserConfig)"
  "\<not> accepts exampleDefaultConfig (exampleServer, Map.empty)"
  "\<not> accepts exampleDefaultConfig (exampleClient, exampleUserConfig)"
  by (simp_all add: accepts_def eval_defs)

lemma field_upd: "field (m(k \<mapsto> v)) k' = (if k' = k then v else field m k')"
  by (simp add: field_def)

lemma spread_falsy: "\<not> truthy v \<Longrightarrow> spread v = Map.empty"
proof (cases v)
  case (JNum n)
  then show ?thesis by (cases n) simp_all
next
  case (JStr s)
  assume "\<not> truthy v"
  with JStr show ?thesis by (simp add: indexed_def)
qed simp_all

lemma replaced_cookies:
  "field (replacePrivateValues u) ''cookies''
     = JObj ((spread (field u ''cookies''))(''keys'' \<mapsto> JArr [JStr ''hidden'']))"
  by (simp add: replacePrivateValues_def js_and_def Let_def field_upd spread_falsy)

lemma replaced_admin:
  assumes "truthy (field u ''firebaseAdminInitConfig'')"
    and "truthy (propOf (field u ''firebaseAdminInitConfig'') ''credential'')"
  shows "field (replacePrivateValues u) ''firebaseAdminInitConfig''
     = JObj ((spread (field u ''firebaseAdminInitConfig''))
               (''credential'' \<mapsto>
                  JObj ((spread (propOf (field u ''firebaseAdminInitConfig'') ''credential''))
                          (''privateKey'' \<mapsto> JStr ''hidden'',
                           ''clientEmail'' \<mapsto> JStr ''hidden''))))"
  using assms
  by (simp add: replacePrivateValues_def js_and_def Let_def field_upd)

lemma setConfig_log:
  "debugLog (snd (setConfig d e u s))
     = debugLog s @ [[JStr ''[init] Setting config with provided value:'',
                      JObj (replacePrivateValues u)]]"
  by (simp add: setConfig_def logDebug_def Let_def split: sum.splits)

lemma specSchemePrefix_examples:
  "specSchemePrefix ''http://localhost:9099''"
  "specSchemePrefix ''https://localhost:9099''"
  "\<not> specSchemePrefix ''localhost:9099''"
  by (simp_all add: specSchemePrefix_def)

lemma replaced_other:
  "k \<noteq> ''cookies'' \<Longrightarrow> k \<noteq> ''firebaseAdminInitConfig'' \<Longrightarrow> replacePrivateValues u k = u k"
  by (simp add: replacePrivateValues_def js_and_def Let_def spread_falsy map_add_def)

lemma replaced_cookies_entry:
  "replacePrivateValues u ''cookies''
     = Some (JObj ((spread (field u ''cookies''))(''keys'' \<mapsto> JArr [JStr ''hidden''])))"
  by (simp add: replacePrivateValues_def js_and_def Let_def spread_falsy map_add_def)

lemma replaced_admin_entry:
  "replacePrivateValues u ''firebaseAdminInitConfig''
     = (if \<not> truthy (field u ''firebaseAdminInitConfig'') then u ''firebaseAdminInitConfig''
        else if \<not> truthy (propOf (field u ''firebaseAdminInitConfig'') ''credential'')
        then Some (JObj (spread (field u ''firebaseAdminInitConfig'')))
        else Some (JObj ((spread (field u ''firebaseAdminInitConfig''))
               (''credential'' \<mapsto>
                  JObj ((spread (propOf (field u ''firebaseAdminInitConfig'') ''credential''))
                          (''privateKey'' \<mapsto> JStr ''hidden'',
                           ''clientEmail'' \<mapsto> JStr ''hidden''))))))"
  by (simp add: replacePrivateValues_def js_and_def Let_def spread_falsy)

lemma replaced_drop_keys:
  "field u ''cookies'' = JObj c \<Longrightarrow>
   replacePrivateValues (u(''cookies'' \<mapsto> JObj (c(''keys'' := None)))) = replacePrivateValues u"
  by (simp add: replacePrivateValues_def js_and_def Let_def field_def fun_eq_iff
      split: option.splits)

lemma replaced_drop_credential:
  "field u ''firebaseAdminInitConfig'' = JObj a \<Longrightarrow> field a ''credential'' = JObj cr \<Longrightarrow>
   replacePrivateValues
     (u(''firebaseAdminInitConfig'' \<mapsto>
          JObj (a(''credential'' \<mapsto>
                    JObj (cr(''privateKey'' := None, ''clientEmail'' := None))))))
     = replacePrivateValues u"
  by (simp add: replacePrivateValues_def js_and_def Let_def field_def fun_eq_iff
      split: option.splits)

lemma replaced_withoutSecrets: "replacePrivateValues (withoutSecrets u) = replacePrivateValues u"
proof -
  let ?u1 = "u(''cookies'' :=
          (case field u ''cookies'' of
             JObj c \<Rightarrow> Some (JObj (c(''keys'' := None)))
           | _ \<Rightarrow> u ''cookies''))"
  have one: "replacePrivateValues ?u1 = replacePrivateValues u"
  proof (cases "field u ''cookies''")
    case (JObj c)
    then show ?thesis by (simp add: replaced_drop_keys)
  qed simp_all
  have adm: "field ?u1 ''firebaseAdminInitConfig'' = field u ''firebaseAdminInitConfig''"
    "?u1 ''firebaseAdminInitConfig'' = u ''firebaseAdminInitConfig''"
    by (simp_all add: field_def)
  have two: "replacePrivateValues (withoutSecrets u) = replacePrivateValues ?u1"
  proof (cases "field u ''firebaseAdminInitConfig''")
    case (JObj a)
    show ?thesis
    proof (cases "field a ''credential''")
      case cr: (JObj cr)
      have "field ?u1 ''firebaseAdminInitConfig'' = JObj a"
        using JObj adm(1) by simp
      from replaced_drop_credential [OF this cr] show ?thesis
        by (simp add: withoutSecrets_def JObj cr)
    qed (simp_all add: withoutSecrets_def JObj adm(2) [symmetric] del: fun_upd_apply)
  qed (simp_all add: withoutSecrets_def adm(2) [symmetric] del: fun_upd_apply)
  from one two show ?thesis by simp
qed

lemma setConfig_invalid_typed:
  assumes "hostTyped (mergedConfig d u)" and "\<not> accepts d (e, u)"
  shows "\<exists>detail. fst (setConfig d e u s)
            = Inl (Error (''Invalid next-firebase-auth options: '' @ detail))"
proof -
  have v: "validateConfig e (mergedConfig d u)
      = Inr \<lparr>isValid = (allErrors e (mergedConfig d u) = []),
             errors = allErrors e (mergedConfig d u)\<rparr>"
    using refl assms(1) by (rule validateConfig_merged)
  with assms(2) have "allErrors e (mergedConfig d u) \<noteq> []"
    by (simp add: accepts_def)
  then show ?thesis
    by (simp add: setConfig_def v Let_def)
qed

lemma example_undefined_accepts:
  "accepts exampleDefaultConfig
     (exampleServer, exampleUserConfig(''onVerifyTokenError'' \<mapsto> JUndefined))"
  by (simp add: accepts_def eval_defs)

lemma example_hostTyped:
  "hostTyped (mergedConfig exampleDefaultConfig exampleUserConfig)"
  "hostTyped (mergedConfig exampleDefaultConfig Map.empty)"
  by (simp_all add: hostTyped_def eval_defs)

section \<open>The cookie max-age ceiling\<close>

text \<open>
  C1. \<^verbatim>\<open>TWO_WEEKS_IN_MS\<close> is 14 days in milliseconds (14 times 24 hours of 60 minutes of
  60 seconds of 1000 milliseconds). On the server, for a host of the declared type: when the
  merged \<^verbatim>\<open>cookies.maxAge\<close> is 15 days in milliseconds, \<^verbatim>\<open>setConfig\<close> throws the
  invalid-options error and its text contains the max-age message, which cites the ceiling;
  when it is exactly \<^verbatim>\<open>14*60*60*24*1000\<close> the validation result does not contain the
  max-age message; when it is zero or any other falsy value the result contains it once.
\<close>

theorem C1_max_age:
  assumes "cfg = mergedConfig d u" and "hostTyped cfg" and "\<not> isClientSide e"
  shows "TWO_WEEKS_IN_MS = 14 * 24 * 60 * 60 * 1000
    \<and> (propOf (field cfg ''cookies'') ''maxAge'' = JNum (Fin (15 * 24 * 60 * 60 * 1000)) \<longrightarrow>
         (\<exists>detail. fst (setConfig d e u s)
             = Inl (Error (''Invalid next-firebase-auth options: '' @ detail))
           \<and> sublist msgMaxAge detail))
    \<and> (propOf (field cfg ''cookies'') ''maxAge'' = JNum (Fin (14 * 60 * 60 * 24 * 1000)) \<longrightarrow>
         (\<exists>r. validateConfig e cfg = Inr r \<and> count_list (errors r) msgMaxAge = 0))
    \<and> (\<not> truthy (propOf (field cfg ''cookies'') ''maxAge'') \<longrightarrow>
         (\<exists>r. validateConfig e cfg = Inr r \<and> count_list (errors r) msgMaxAge = 1))"
proof -
  have v: "validateConfig e cfg
      = Inr \<lparr>isValid = (allErrors e cfg = []), errors = allErrors e cfg\<rparr>"
    using assms(1,2) by (rule validateConfig_merged)
  obtain c where c: "field cfg ''cookies'' = JObj c"
    using assms(1) mergedConfig_cookies by blast
  have cnt: "count_list (allErrors e cfg) msgMaxAge
      = (if \<not> truthy (propOf (field cfg ''cookies'') ''maxAge'')
            \<or> gt (propOf (field cfg ''cookies'') ''maxAge'') (real TWO_WEEKS_IN_MS)
         then 1 else 0)"
    using assms(3) by (simp add: count_allErrors_rest count_restErrors_maxAge [OF c])
  have "TWO_WEEKS_IN_MS = 14 * 24 * 60 * 60 * 1000"
    by (simp add: TWO_WEEKS_IN_MS_def)
  moreover have "\<exists>detail. fst (setConfig d e u s)
             = Inl (Error (''Invalid next-firebase-auth options: '' @ detail))
           \<and> sublist msgMaxAge detail"
    if "propOf (field cfg ''cookies'') ''maxAge'' = JNum (Fin (15 * 24 * 60 * 60 * 1000))"
  proof -
    have "count_list (allErrors e cfg) msgMaxAge = 1"
      using that by (simp add: cnt TWO_WEEKS_IN_MS_def)
    then have "msgMaxAge \<in> set (allErrors e cfg)"
      by (metis count_notin zero_neq_one)
    with assms(1,2) show ?thesis by (rule setConfig_invalid)
  qed
  moreover have "count_list (allErrors e cfg) msgMaxAge = 0"
    if "propOf (field cfg ''cookies'') ''maxAge'' = JNum (Fin (14 * 60 * 60 * 24 * 1000))"
    using that by (simp add: cnt TWO_WEEKS_IN_MS_def)
  moreover have "count_list (allErrors e cfg) msgMaxAge = 1"
    if "\<not> truthy (propOf (field cfg ''cookies'') ''maxAge'')"
    using that by (simp add: cnt)
  ultimately show ?thesis
    by (simp add: v)
qed

theorem C1_max_age_witness:
  "hostTyped (mergedConfig exampleDefaultConfig
      (exampleUserConfig(''cookies'' \<mapsto>
         JObj [''name'' \<mapsto> JStr ''Demo'', ''maxAge'' \<mapsto> JNum (Fin 1296000000)])))
   \<and> \<not> isClientSide exampleServer
   \<and> (\<exists>detail.
         fst (setConfig exampleDefaultConfig exampleServer
               (exampleUserConfig(''cookies'' \<mapsto>
                  JObj [''name'' \<mapsto> JStr ''Demo'', ''maxAge'' \<mapsto> JNum (Fin 1296000000)]))
               initialState)
           = Inl (Error (''Invalid next-firebase-auth options: '' @ detail))
         \<and> sublist msgMaxAge detail)
   \<and> (\<exists>r. validateConfig exampleServer
               (mergedConfig exampleDefaultConfig
                  (exampleUserConfig(''cookies'' \<mapsto>
                     JObj [''name'' \<mapsto> JStr ''Demo'', ''maxAge'' \<mapsto> JNum (Fin 1209600000)])))
             = Inr r
           \<and> count_list (errors r) msgMaxAge = 0)
   \<and> (\<exists>r. validateConfig exampleServer
               (mergedConfig exampleDefaultConfig
                  (exampleUserConfig(''cookies'' \<mapsto>
                     JObj [''name'' \<mapsto> JStr ''Demo'', ''maxAge'' \<mapsto> JNum (Fin 0)])))
             = Inr r
           \<and> count_list (errors r) msgMaxAge = 1)"
proof -
  let ?u = "\<lambda>age. exampleUserConfig(''cookies'' \<mapsto>
               JObj [''name'' \<mapsto> JStr ''Demo'', ''maxAge'' \<mapsto> JNum (Fin age)])"
  have h: "hostTyped (mergedConfig exampleDefaultConfig (?u age))" for age
    by (simp add: hostTyped_def eval_defs)
  have s: "\<not> isClientSide exampleServer"
    by (simp add: exampleServer_def)
  have m: "propOf (field (mergedConfig exampleDefaultConfig (?u age)) ''cookies'') ''maxAge''
      = JNum (Fin age)" for age
    by (simp add: eval_defs)
  show ?thesis
    using C1_max_age [OF refl h s, of 1296000000 initialState]
      C1_max_age [OF refl h s, of 1209600000 initialState]
      C1_max_age [OF refl h s, of 0 initialState] h s
    by (simp add: m)
qed

section \<open>The merge\<close>

text \<open>
  C2, as the code has it. The merged configuration that \<^verbatim>\<open>setConfig\<close> computes from the
  baseline \<open>d\<close> and the caller's configuration \<open>u\<close>: every field other than
  \<^verbatim>\<open>cookies\<close> is the caller's when the caller's object has that property, whatever its
  value, and the baseline's otherwise. So every field of the baseline is a property of the
  result, and such a field is defined (not \<^verbatim>\<open>undefined\<close>) whenever the baseline defines it
  and the caller does not supply \<^verbatim>\<open>undefined\<close> for it. The \<^verbatim>\<open>cookies\<close> field is an
  object merged key by key: each cookie option is the caller's when the caller's cookie
  object has it and the baseline's otherwise, and it is the baseline's cookie object when the
  caller gives no cookie options. For a host of the declared type, this merged configuration
  is what a successful \<^verbatim>\<open>setConfig\<close> stores.
\<close>

theorem C2_merge:
  "(\<forall>k. k \<noteq> ''cookies'' \<longrightarrow>
        mergedConfig d u k = (case u k of Some v \<Rightarrow> Some v | None \<Rightarrow> d k))
   \<and> (\<forall>k \<in> dom d. mergedConfig d u k \<noteq> None)
   \<and> (\<forall>k. k \<noteq> ''cookies'' \<and> field d k \<noteq> JUndefined \<and> u k \<noteq> Some JUndefined \<longrightarrow>
        field (mergedConfig d u) k \<noteq> JUndefined)
   \<and> (\<forall>dc uc. field d ''cookies'' = JObj dc \<and> field u ''cookies'' = JObj uc \<longrightarrow>
        mergedConfig d u ''cookies''
          = Some (JObj (\<lambda>k. case uc k of Some v \<Rightarrow> Some v | None \<Rightarrow> dc k)))
   \<and> (\<forall>dc. field d ''cookies'' = JObj dc \<and> \<not> truthy (field u ''cookies'') \<longrightarrow>
        mergedConfig d u ''cookies'' = Some (JObj dc))
   \<and> (\<forall>e s. hostTyped (mergedConfig d u) \<and> fst (setConfig d e u s) = Inr () \<longrightarrow>
        config (snd (setConfig d e u s)) = JObj (mergedConfig d u))"
proof (intro conjI allI ballI impI)
  fix k :: string
  assume "k \<noteq> ''cookies''"
  then show "mergedConfig d u k = (case u k of Some v \<Rightarrow> Some v | None \<Rightarrow> d k)"
    by (simp add: mergedConfig_def map_add_def split: option.splits)
next
  fix k
  assume "k \<in> dom d"
  then show "mergedConfig d u k \<noteq> None"
    by (auto simp: mergedConfig_def map_add_def split: option.splits)
next
  fix k :: string
  assume "k \<noteq> ''cookies'' \<and> field d k \<noteq> JUndefined \<and> u k \<noteq> Some JUndefined"
  then show "field (mergedConfig d u) k \<noteq> JUndefined"
    by (auto simp: mergedConfig_def map_add_def field_def split: option.splits)
next
  fix dc uc
  assume "field d ''cookies'' = JObj dc \<and> field u ''cookies'' = JObj uc"
  then show "mergedConfig d u ''cookies''
      = Some (JObj (\<lambda>k. case uc k of Some v \<Rightarrow> Some v | None \<Rightarrow> dc k))"
    by (simp add: mergedConfig_def js_or_def map_add_def)
next
  fix dc
  assume "field d ''cookies'' = JObj dc \<and> \<not> truthy (field u ''cookies'')"
  then show "mergedConfig d u ''cookies'' = Some (JObj dc)"
    by (simp add: mergedConfig_def js_or_def)
next
  fix e s
  assume "hostTyped (mergedConfig d u) \<and> fst (setConfig d e u s) = Inr ()"
  then show "config (snd (setConfig d e u s)) = JObj (mergedConfig d u)"
    by (simp add: setConfig_outcome setConfig_config)
qed

theorem C2_merge_witness:
  "''loginAPIEndpoint'' \<noteq> ''cookies''
   \<and> mergedConfig exampleDefaultConfig exampleUserConfig ''loginAPIEndpoint''
       = Some (JStr ''/api/login'')
   \<and> ''debug'' \<noteq> ''cookies''
   \<and> mergedConfig exampleDefaultConfig exampleUserConfig ''debug'' = Some (JBool False)
   \<and> ''onVerifyTokenError'' \<in> dom exampleDefaultConfig
   \<and> mergedConfig exampleDefaultConfig exampleUserConfig ''onVerifyTokenError'' \<noteq> None
   \<and> field exampleDefaultConfig ''onVerifyTokenError'' \<noteq> JUndefined
   \<and> exampleUserConfig ''onVerifyTokenError'' \<noteq> Some JUndefined
   \<and> field (mergedConfig exampleDefaultConfig exampleUserConfig) ''onVerifyTokenError''
       \<noteq> JUndefined
   \<and> field exampleDefaultConfig ''cookies''
       = JObj [''httpOnly'' \<mapsto> JBool True, ''maxAge'' \<mapsto> JNum (Fin 604800000),
               ''path'' \<mapsto> JStr ''/'']
   \<and> field exampleUserConfig ''cookies''
       = JObj [''name'' \<mapsto> JStr ''Demo'', ''keys'' \<mapsto> JArr [JStr ''signing-secret'']]
   \<and> mergedConfig exampleDefaultConfig exampleUserConfig ''cookies''
       = Some (JObj (\<lambda>k.
           case [''name'' \<mapsto> JStr ''Demo'', ''keys'' \<mapsto> JArr [JStr ''signing-secret'']] k of
             Some v \<Rightarrow> Some v
           | None \<Rightarrow> [''httpOnly'' \<mapsto> JBool True, ''maxAge'' \<mapsto> JNum (Fin 604800000),
                       ''path'' \<mapsto> JStr ''/''] k))
   \<and> \<not> truthy (field Map.empty ''cookies'')
   \<and> mergedConfig exampleDefaultConfig Map.empty ''cookies''
       = Some (JObj [''httpOnly'' \<mapsto> JBool True, ''maxAge'' \<mapsto> JNum (Fin 604800000),
                     ''path'' \<mapsto> JStr ''/''])
   \<and> hostTyped (mergedConfig exampleDefaultConfig exampleUserConfig)
   \<and> fst (setConfig exampleDefaultConfig exampleServer exampleUserConfig initialState) = Inr ()
   \<and> config (snd (setConfig exampleDefaultConfig exampleServer exampleUserConfig initialState))
       = JObj (mergedConfig exampleDefaultConfig exampleUserConfig)"
proof -
  note m = C2_merge [of exampleDefaultConfig exampleUserConfig]
  note m0 = C2_merge [of exampleDefaultConfig Map.empty]
  have n: "''loginAPIEndpoint'' \<noteq> ''cookies''" "''debug'' \<noteq> ''cookies''"
    "''onVerifyTokenError'' \<noteq> ''cookies''"
    by simp_all
  have dm: "''onVerifyTokenError'' \<in> dom exampleDefaultConfig"
    by (simp add: exampleDefaultConfig_def)
  have df: "field exampleDefaultConfig ''onVerifyTokenError'' \<noteq> JUndefined"
    "exampleUserConfig ''onVerifyTokenError'' \<noteq> Some JUndefined"
    by (simp_all add: exampleDefaultConfig_def exampleUserConfig_def field_def)
  have dc: "field exampleDefaultConfig ''cookies''
      = JObj [''httpOnly'' \<mapsto> JBool True, ''maxAge'' \<mapsto> JNum (Fin 604800000),
              ''path'' \<mapsto> JStr ''/'']"
    by (simp add: exampleDefaultConfig_def field_def)
  have uc: "field exampleUserConfig ''cookies''
      = JObj [''name'' \<mapsto> JStr ''Demo'', ''keys'' \<mapsto> JArr [JStr ''signing-secret'']]"
    by (simp add: exampleUserConfig_def field_def)
  have e: "\<not> truthy (field Map.empty ''cookies'')"
    by (simp add: field_def)
  have ok: "fst (setConfig exampleDefaultConfig exampleServer exampleUserConfig initialState)
      = Inr ()"
    by (simp add: setConfig_outcome example_accepts)
  have "mergedConfig exampleDefaultConfig exampleUserConfig ''loginAPIEndpoint''
      = Some (JStr ''/api/login'')"
    using m [THEN conjunct1, rule_format, OF n(1)] by (simp add: exampleUserConfig_def)
  moreover have "mergedConfig exampleDefaultConfig exampleUserConfig ''debug''
      = Some (JBool False)"
    using m [THEN conjunct1, rule_format, OF n(2)]
    by (simp add: exampleUserConfig_def exampleDefaultConfig_def)
  moreover have "mergedConfig exampleDefaultConfig exampleUserConfig ''onVerifyTokenError''
      \<noteq> None"
    using m [THEN conjunct2, THEN conjunct1, rule_format, OF dm] .
  moreover have "field (mergedConfig exampleDefaultConfig exampleUserConfig)
      ''onVerifyTokenError'' \<noteq> JUndefined"
    using m [THEN conjunct2, THEN conjunct2, THEN conjunct1, rule_format, OF conjI,
        OF n(3) conjI, OF df] .
  moreover have "mergedConfig exampleDefaultConfig exampleUserConfig ''cookies''
       = Some (JObj (\<lambda>k.
           case [''name'' \<mapsto> JStr ''Demo'', ''keys'' \<mapsto> JArr [JStr ''signing-secret'']] k of
             Some v \<Rightarrow> Some v
           | None \<Rightarrow> [''httpOnly'' \<mapsto> JBool True, ''maxAge'' \<mapsto> JNum (Fin 604800000),
                       ''path'' \<mapsto> JStr ''/''] k))"
    using m [THEN conjunct2, THEN conjunct2, THEN conjunct2, THEN conjunct1, rule_format,
        OF conjI, OF dc uc] .
  moreover have "mergedConfig exampleDefaultConfig Map.empty ''cookies''
       = Some (JObj [''httpOnly'' \<mapsto> JBool True, ''maxAge'' \<mapsto> JNum (Fin 604800000),
                     ''path'' \<mapsto> JStr ''/''])"
    using m0 [THEN conjunct2, THEN conjunct2, THEN conjunct2, THEN conjunct2, THEN conjunct1,
        rule_format, OF conjI, OF dc e] .
  moreover have "config (snd (setConfig exampleDefaultConfig exampleServer exampleUserConfig
      initialState)) = JObj (mergedConfig exampleDefaultConfig exampleUserConfig)"
    using m [THEN conjunct2, THEN conjunct2, THEN conjunct2, THEN conjunct2, THEN conjunct2,
        rule_format, OF conjI, OF example_hostTyped(1) ok] .
  ultimately show ?thesis
    using n dm df dc uc e ok example_hostTyped(1) by simp
qed

text \<open>
  C2 as the specification words it fails for a caller who supplies a property holding
  \<^verbatim>\<open>undefined\<close>: the baseline has a handler for \<^verbatim>\<open>onVerifyTokenError\<close>, the caller's
  \<^verbatim>\<open>undefined\<close> replaces it, the merged field is \<^verbatim>\<open>undefined\<close>, and \<^verbatim>\<open>setConfig\<close>
  accepts and stores that configuration.
\<close>

theorem C2_counterexample:
  "field exampleDefaultConfig ''onVerifyTokenError'' = JFun 0
   \<and> field (mergedConfig exampleDefaultConfig
        (exampleUserConfig(''onVerifyTokenError'' \<mapsto> JUndefined))) ''onVerifyTokenError''
       = JUndefined
   \<and> fst (setConfig exampleDefaultConfig exampleServer
        (exampleUserConfig(''onVerifyTokenError'' \<mapsto> JUndefined)) initialState) = Inr ()
   \<and> getConfig (snd (setConfig exampleDefaultConfig exampleServer
        (exampleUserConfig(''onVerifyTokenError'' \<mapsto> JUndefined)) initialState))
       = Inr (JObj (mergedConfig exampleDefaultConfig
           (exampleUserConfig(''onVerifyTokenError'' \<mapsto> JUndefined))))"
proof -
  have "field exampleDefaultConfig ''onVerifyTokenError'' = JFun 0"
    by (simp add: exampleDefaultConfig_def field_def)
  moreover have "field (mergedConfig exampleDefaultConfig
        (exampleUserConfig(''onVerifyTokenError'' \<mapsto> JUndefined))) ''onVerifyTokenError''
       = JUndefined"
    by (simp add: eval_defs)
  ultimately show ?thesis
    by (simp add: setConfig_outcome setConfig_config getConfig_def example_undefined_accepts)
qed

section \<open>The stored configuration\<close>

text \<open>
  C3. \<^verbatim>\<open>getConfig\<close> throws the not-initialized error in the initial state. For a call of
  \<^verbatim>\<open>setConfig\<close> whose merged configuration has a host of the declared type: the call
  returns exactly when validation passes; a call that does not pass throws the
  invalid-options error and leaves \<^verbatim>\<open>config\<close> as it was (still unset after a first call,
  still the earlier configuration otherwise); a call that passes stores its merged
  configuration, which \<^verbatim>\<open>getConfig\<close> then returns. For any run of such calls from the
  initial state, \<^verbatim>\<open>getConfig\<close> throws the not-initialized error when no call passed, and
  returns the merged configuration of the last passing call otherwise.
\<close>

theorem C3_store:
  "getConfig initialState
     = Inl (Error ''next-firebase-auth must be initialized before rendering.'')
   \<and> (hostTyped (mergedConfig d u) \<longrightarrow>
        (fst (setConfig d e u s) = Inr ()) = accepts d (e, u)
        \<and> (\<not> accepts d (e, u) \<longrightarrow>
             (\<exists>detail. fst (setConfig d e u s)
                 = Inl (Error (''Invalid next-firebase-auth options: '' @ detail)))
             \<and> config (snd (setConfig d e u s)) = config s)
        \<and> (accepts d (e, u) \<longrightarrow>
             getConfig (snd (setConfig d e u s)) = Inr (JObj (mergedConfig d u))))
   \<and> ((\<forall>call \<in> set calls. hostTyped (mergedConfig d (snd call))) \<longrightarrow>
        (filter (accepts d) calls = [] \<longrightarrow>
           getConfig (setConfigs d calls initialState)
             = Inl (Error ''next-firebase-auth must be initialized before rendering.''))
        \<and> (filter (accepts d) calls \<noteq> [] \<longrightarrow>
             getConfig (setConfigs d calls initialState)
               = Inr (JObj (mergedConfig d (snd (last (filter (accepts d) calls)))))))"
proof (intro conjI impI)
  show "getConfig initialState
     = Inl (Error ''next-firebase-auth must be initialized before rendering.'')"
    by (simp add: getConfig_def initialState_def)
next
  show "(fst (setConfig d e u s) = Inr ()) = accepts d (e, u)"
    by (rule setConfig_outcome)
next
  assume "hostTyped (mergedConfig d u)" and "\<not> accepts d (e, u)"
  then show "\<exists>detail. fst (setConfig d e u s)
      = Inl (Error (''Invalid next-firebase-auth options: '' @ detail))"
    by (rule setConfig_invalid_typed)
next
  assume "\<not> accepts d (e, u)"
  then show "config (snd (setConfig d e u s)) = config s"
    by (simp add: setConfig_config)
next
  assume "accepts d (e, u)"
  then show "getConfig (snd (setConfig d e u s)) = Inr (JObj (mergedConfig d u))"
    by (simp add: getConfig_def setConfig_config)
next
  assume "filter (accepts d) calls = []"
  then show "getConfig (setConfigs d calls initialState)
      = Inl (Error ''next-firebase-auth must be initialized before rendering.'')"
    by (simp add: getConfig_def setConfigs_config initialState_def)
next
  assume "filter (accepts d) calls \<noteq> []"
  then show "getConfig (setConfigs d calls initialState)
      = Inr (JObj (mergedConfig d (snd (last (filter (accepts d) calls)))))"
    by (simp add: getConfig_def setConfigs_config)
qed

theorem C3_store_witness:
  "hostTyped (mergedConfig exampleDefaultConfig Map.empty)
   \<and> \<not> accepts exampleDefaultConfig (exampleServer, Map.empty)
   \<and> (\<exists>detail. fst (setConfig exampleDefaultConfig exampleServer Map.empty initialState)
          = Inl (Error (''Invalid next-firebase-auth options: '' @ detail)))
   \<and> config (snd (setConfig exampleDefaultConfig exampleServer Map.empty initialState))
       = config initialState
   \<and> hostTyped (mergedConfig exampleDefaultConfig exampleUserConfig)
   \<and> accepts exampleDefaultConfig (exampleServer, exampleUserConfig)
   \<and> fst (setConfig exampleDefaultConfig exampleServer exampleUserConfig initialState) = Inr ()
   \<and> getConfig (snd (setConfig exampleDefaultConfig exampleServer exampleUserConfig initialState))
       = Inr (JObj (mergedConfig exampleDefaultConfig exampleUserConfig))
   \<and> filter (accepts exampleDefaultConfig) [(exampleServer, Map.empty)] = []
   \<and> getConfig (setConfigs exampleDefaultConfig [(exampleServer, Map.empty)] initialState)
       = Inl (Error ''next-firebase-auth must be initialized before rendering.'')
   \<and> filter (accepts exampleDefaultConfig)
        [(exampleServer, Map.empty), (exampleServer, exampleUserConfig),
         (exampleClient, exampleUserConfig)] \<noteq> []
   \<and> getConfig (setConfigs exampleDefaultConfig
        [(exampleServer, Map.empty), (exampleServer, exampleUserConfig),
         (exampleClient, exampleUserConfig)] initialState)
       = Inr (JObj (mergedConfig exampleDefaultConfig exampleUserConfig))"
  using C3_store [of exampleDefaultConfig Map.empty exampleServer initialState
      "[(exampleServer, Map.empty)]"]
    C3_store [of exampleDefaultConfig exampleUserConfig exampleServer initialState
      "[(exampleServer, Map.empty), (exampleServer, exampleUserConfig),
        (exampleClient, exampleUserConfig)]"]
  by (simp add: example_accepts example_hostTyped)

section \<open>The API key\<close>

text \<open>
  C4. When the merged configuration has no client API key, that is when
  \<^verbatim>\<open>firebaseClientInitConfig && firebaseClientInitConfig.apiKey\<close> is falsy (the object or
  the key is missing, or the key is the empty string), \<^verbatim>\<open>setConfig\<close> throws the
  invalid-options error and its text contains the API key message. This holds in either
  execution context, for a host of the declared type.
\<close>

theorem C4_api_key:
  assumes "cfg = mergedConfig d u" and "hostTyped cfg"
    and "\<not> truthy (js_and (field cfg ''firebaseClientInitConfig'')
                       (propOf (field cfg ''firebaseClientInitConfig'') ''apiKey''))"
  shows "\<exists>detail. fst (setConfig d e u s)
            = Inl (Error (''Invalid next-firebase-auth options: '' @ detail))
          \<and> sublist msgApiKeyRequired detail"
proof -
  have "msgApiKeyRequired \<in> set (allErrors e cfg)"
    using assms(3) by (simp add: allErrors_def apiKeyErrors_def)
  with assms(1,2) show ?thesis by (rule setConfig_invalid)
qed

theorem C4_api_key_witness:
  "hostTyped (mergedConfig exampleDefaultConfig
      (exampleUserConfig(''firebaseClientInitConfig'' \<mapsto> JObj [''apiKey'' \<mapsto> JStr []])))
   \<and> \<not> truthy (js_and
          (field (mergedConfig exampleDefaultConfig
             (exampleUserConfig(''firebaseClientInitConfig'' \<mapsto> JObj [''apiKey'' \<mapsto> JStr []])))
             ''firebaseClientInitConfig'')
          (propOf (field (mergedConfig exampleDefaultConfig
             (exampleUserConfig(''firebaseClientInitConfig'' \<mapsto> JObj [''apiKey'' \<mapsto> JStr []])))
             ''firebaseClientInitConfig'') ''apiKey''))
   \<and> (\<exists>detail.
         fst (setConfig exampleDefaultConfig exampleClient
               (exampleUserConfig(''firebaseClientInitConfig'' \<mapsto> JObj [''apiKey'' \<mapsto> JStr []]))
               initialState)
           = Inl (Error (''Invalid next-firebase-auth options: '' @ detail))
         \<and> sublist msgApiKeyRequired detail)
   \<and> hostTyped (mergedConfig exampleDefaultConfig Map.empty)
   \<and> \<not> truthy (js_and
          (field (mergedConfig exampleDefaultConfig Map.empty) ''firebaseClientInitConfig'')
          (propOf (field (mergedConfig exampleDefaultConfig Map.empty) ''firebaseClientInitConfig'')
             ''apiKey''))
   \<and> (\<exists>detail.
         fst (setConfig exampleDefaultConfig exampleServer Map.empty initialState)
           = Inl (Error (''Invalid next-firebase-auth options: '' @ detail))
         \<and> sublist msgApiKeyRequired detail)"
proof -
  let ?u = "exampleUserConfig(''firebaseClientInitConfig'' \<mapsto> JObj [''apiKey'' \<mapsto> JStr []])"
  have h: "hostTyped (mergedConfig exampleDefaultConfig ?u)"
    and h': "hostTyped (mergedConfig exampleDefaultConfig Map.empty)"
    by (simp_all add: hostTyped_def eval_defs)
  have k: "\<not> truthy (js_and
          (field (mergedConfig exampleDefaultConfig ?u) ''firebaseClientInitConfig'')
          (propOf (field (mergedConfig exampleDefaultConfig ?u) ''firebaseClientInitConfig'')
             ''apiKey''))"
    and k': "\<not> truthy (js_and
          (field (mergedConfig exampleDefaultConfig Map.empty) ''firebaseClientInitConfig'')
          (propOf (field (mergedConfig exampleDefaultConfig Map.empty) ''firebaseClientInitConfig'')
             ''apiKey''))"
    by (simp_all add: eval_defs)
  show ?thesis
    using C4_api_key [OF refl h k, of exampleClient initialState]
      C4_api_key [OF refl h' k', of exampleServer initialState] h h' k k'
    by simp
qed

section \<open>A token-change callback excludes the login and logout settings\<close>

text \<open>
  C5. For a merged configuration with a host of the declared type: when
  \<^verbatim>\<open>tokenChangedHandler\<close> is set (truthy), each of \<^verbatim>\<open>loginAPIEndpoint\<close>,
  \<^verbatim>\<open>logoutAPIEndpoint\<close>, \<^verbatim>\<open>onLoginRequestError\<close> and \<^verbatim>\<open>onLogoutRequestError\<close> that
  is set as well puts its own message into the validation result exactly once, and one that
  is not set puts none; when \<^verbatim>\<open>tokenChangedHandler\<close> is not set, none of the four messages
  occurs.
\<close>

theorem C5_handler:
  assumes "cfg = mergedConfig d u" and "hostTyped cfg"
  shows "\<exists>r. validateConfig e cfg = Inr r
    \<and> (truthy (field cfg ''tokenChangedHandler'') \<longrightarrow>
          count_list (errors r) msgLoginWithHandler
            = (if truthy (field cfg ''loginAPIEndpoint'') then 1 else 0)
        \<and> count_list (errors r) msgLogoutWithHandler
            = (if truthy (field cfg ''logoutAPIEndpoint'') then 1 else 0)
        \<and> count_list (errors r) msgOnLoginErrorWithHandler
            = (if truthy (field cfg ''onLoginRequestError'') then 1 else 0)
        \<and> count_list (errors r) msgOnLogoutErrorWithHandler
            = (if truthy (field cfg ''onLogoutRequestError'') then 1 else 0))
    \<and> (\<not> truthy (field cfg ''tokenChangedHandler'') \<longrightarrow>
          count_list (errors r) msgLoginWithHandler = 0
        \<and> count_list (errors r) msgLogoutWithHandler = 0
        \<and> count_list (errors r) msgOnLoginErrorWithHandler = 0
        \<and> count_list (errors r) msgOnLogoutErrorWithHandler = 0)"
proof -
  have "validateConfig e cfg = Inr \<lparr>isValid = (allErrors e cfg = []), errors = allErrors e cfg\<rparr>"
    using assms by (rule validateConfig_merged)
  moreover have "count_list (tokenChangedHandlerErrors cfg) msgLoginWithHandler
      = (if truthy (field cfg ''tokenChangedHandler'') \<and> truthy (field cfg ''loginAPIEndpoint'')
         then 1 else 0)"
    by (simp add: messages_neq tokenChangedHandlerErrors_def)
  moreover have "count_list (tokenChangedHandlerErrors cfg) msgLogoutWithHandler
      = (if truthy (field cfg ''tokenChangedHandler'') \<and> truthy (field cfg ''logoutAPIEndpoint'')
         then 1 else 0)"
    by (simp add: messages_neq tokenChangedHandlerErrors_def)
  moreover have "count_list (tokenChangedHandlerErrors cfg) msgOnLoginErrorWithHandler
      = (if truthy (field cfg ''tokenChangedHandler'') \<and> truthy (field cfg ''onLoginRequestError'')
         then 1 else 0)"
    by (simp add: messages_neq tokenChangedHandlerErrors_def)
  moreover have "count_list (tokenChangedHandlerErrors cfg) msgOnLogoutErrorWithHandler
      = (if truthy (field cfg ''tokenChangedHandler'') \<and> truthy (field cfg ''onLogoutRequestError'')
         then 1 else 0)"
    by (simp add: messages_neq tokenChangedHandlerErrors_def)
  ultimately show ?thesis
    by (simp add: count_allErrors_handler)
qed

theorem C5_handler_witness:
  "hostTyped (mergedConfig exampleDefaultConfig
      (exampleUserConfig(''tokenChangedHandler'' \<mapsto> JFun 2)))
   \<and> truthy (field (mergedConfig exampleDefaultConfig
        (exampleUserConfig(''tokenChangedHandler'' \<mapsto> JFun 2))) ''tokenChangedHandler'')
   \<and> (\<exists>r. validateConfig exampleServer
               (mergedConfig exampleDefaultConfig
                  (exampleUserConfig(''tokenChangedHandler'' \<mapsto> JFun 2))) = Inr r
           \<and> count_list (errors r) msgLoginWithHandler = 1
           \<and> count_list (errors r) msgLogoutWithHandler = 1
           \<and> count_list (errors r) msgOnLoginErrorWithHandler = 0
           \<and> count_list (errors r) msgOnLogoutErrorWithHandler = 0)
   \<and> hostTyped (mergedConfig exampleDefaultConfig exampleUserConfig)
   \<and> \<not> truthy (field (mergedConfig exampleDefaultConfig exampleUserConfig)
          ''tokenChangedHandler'')
   \<and> (\<exists>r. validateConfig exampleServer
               (mergedConfig exampleDefaultConfig exampleUserConfig) = Inr r
           \<and> count_list (errors r) msgLoginWithHandler = 0
           \<and> count_list (errors r) msgLogoutWithHandler = 0
           \<and> count_list (errors r) msgOnLoginErrorWithHandler = 0
           \<and> count_list (errors r) msgOnLogoutErrorWithHandler = 0)"
proof -
  let ?u = "exampleUserConfig(''tokenChangedHandler'' \<mapsto> JFun 2)"
  have h: "hostTyped (mergedConfig exampleDefaultConfig ?u)"
    and h': "hostTyped (mergedConfig exampleDefaultConfig exampleUserConfig)"
    by (simp_all add: hostTyped_def eval_defs)
  have f: "field (mergedConfig exampleDefaultConfig ?u) ''tokenChangedHandler'' = JFun 2"
    "field (mergedConfig exampleDefaultConfig ?u) ''loginAPIEndpoint'' = JStr ''/api/login''"
    "field (mergedConfig exampleDefaultConfig ?u) ''logoutAPIEndpoint'' = JStr ''/api/logout''"
    "field (mergedConfig exampleDefaultConfig ?u) ''onLoginRequestError'' = JUndefined"
    "field (mergedConfig exampleDefaultConfig ?u) ''onLogoutRequestError'' = JUndefined"
    "field (mergedConfig exampleDefaultConfig exampleUserConfig) ''tokenChangedHandler''
       = JUndefined"
    by (simp_all add: eval_defs)
  show ?thesis
    using C5_handler [OF refl h, of exampleServer] C5_handler [OF refl h', of exampleServer] h h'
    by (simp add: f)
qed

section \<open>The endpoints required on the client\<close>

text \<open>
  C6. For a merged configuration with a host of the declared type: on the client, when
  \<^verbatim>\<open>tokenChangedHandler\<close>, \<^verbatim>\<open>loginAPIEndpoint\<close> and \<^verbatim>\<open>logoutAPIEndpoint\<close> are all
  unset, the validation result contains the login-endpoint-required message exactly once and
  the logout-endpoint-required message exactly once, among whatever the other checks add;
  when \<^verbatim>\<open>tokenChangedHandler\<close> is set, neither message occurs.
\<close>

theorem C6_endpoints:
  assumes "cfg = mergedConfig d u" and "hostTyped cfg"
  shows "\<exists>r. validateConfig e cfg = Inr r
    \<and> (isClientSide e \<and> \<not> truthy (field cfg ''tokenChangedHandler'')
         \<and> \<not> truthy (field cfg ''loginAPIEndpoint'')
         \<and> \<not> truthy (field cfg ''logoutAPIEndpoint'') \<longrightarrow>
          count_list (errors r) msgLoginRequired = 1
        \<and> count_list (errors r) msgLogoutRequired = 1)
    \<and> (truthy (field cfg ''tokenChangedHandler'') \<longrightarrow>
          count_list (errors r) msgLoginRequired = 0
        \<and> count_list (errors r) msgLogoutRequired = 0)"
proof -
  have "validateConfig e cfg = Inr \<lparr>isValid = (allErrors e cfg = []), errors = allErrors e cfg\<rparr>"
    using assms by (rule validateConfig_merged)
  moreover have "count_list (restErrors e cfg) msgLoginRequired
      = (if isClientSide e \<and> \<not> truthy (field cfg ''tokenChangedHandler'')
            \<and> \<not> truthy (field cfg ''loginAPIEndpoint'') then 1 else 0)"
    by (simp add: messages_neq restErrors_def clientErrors_def
        count_outside [OF serverErrors_set])
  moreover have "count_list (restErrors e cfg) msgLogoutRequired
      = (if isClientSide e \<and> \<not> truthy (field cfg ''tokenChangedHandler'')
            \<and> \<not> truthy (field cfg ''logoutAPIEndpoint'') then 1 else 0)"
    by (simp add: messages_neq restErrors_def clientErrors_def
        count_outside [OF serverErrors_set])
  ultimately show ?thesis
    by (simp add: count_allErrors_rest)
qed

theorem C6_endpoints_witness:
  "hostTyped (mergedConfig exampleDefaultConfig Map.empty)
   \<and> isClientSide exampleClient
   \<and> \<not> truthy (field (mergedConfig exampleDefaultConfig Map.empty) ''tokenChangedHandler'')
   \<and> \<not> truthy (field (mergedConfig exampleDefaultConfig Map.empty) ''loginAPIEndpoint'')
   \<and> \<not> truthy (field (mergedConfig exampleDefaultConfig Map.empty) ''logoutAPIEndpoint'')
   \<and> (\<exists>r. validateConfig exampleClient (mergedConfig exampleDefaultConfig Map.empty) = Inr r
           \<and> count_list (errors r) msgLoginRequired = 1
           \<and> count_list (errors r) msgLogoutRequired = 1)
   \<and> hostTyped (mergedConfig exampleDefaultConfig [''tokenChangedHandler'' \<mapsto> JFun 2])
   \<and> truthy (field (mergedConfig exampleDefaultConfig [''tokenChangedHandler'' \<mapsto> JFun 2])
        ''tokenChangedHandler'')
   \<and> (\<exists>r. validateConfig exampleClient
               (mergedConfig exampleDefaultConfig [''tokenChangedHandler'' \<mapsto> JFun 2]) = Inr r
           \<and> count_list (errors r) msgLoginRequired = 0
           \<and> count_list (errors r) msgLogoutRequired = 0)"
proof -
  let ?u = "[''tokenChangedHandler'' \<mapsto> JFun 2]"
  have h: "hostTyped (mergedConfig exampleDefaultConfig Map.empty)"
    and h': "hostTyped (mergedConfig exampleDefaultConfig ?u)"
    by (simp_all add: hostTyped_def eval_defs)
  have c: "isClientSide exampleClient"
    by (simp add: exampleClient_def)
  have f: "field (mergedConfig exampleDefaultConfig Map.empty) ''tokenChangedHandler'' = JUndefined"
    "field (mergedConfig exampleDefaultConfig Map.empty) ''loginAPIEndpoint'' = JUndefined"
    "field (mergedConfig exampleDefaultConfig Map.empty) ''logoutAPIEndpoint'' = JUndefined"
    "field (mergedConfig exampleDefaultConfig ?u) ''tokenChangedHandler'' = JFun 2"
    by (simp_all add: eval_defs)
  show ?thesis
    using C6_endpoints [OF refl h, of exampleClient] C6_endpoints [OF refl h', of exampleClient]
      h h' c
    by (simp add: f)
qed

section \<open>The emulator host and the environment\<close>

text \<open>
  C7, as the code has it. On the server, for a merged configuration whose
  \<^verbatim>\<open>firebaseAuthEmulatorHost\<close> is a non-empty string: when the environment variable
  \<^verbatim>\<open>FIREBASE_AUTH_EMULATOR_HOST\<close> is unset or is the empty string, the validation result
  contains the should-be-set message once and no mismatch message; when it is a non-empty
  string other than the configured host, the result contains the mismatch message once and
  no should-be-set message; when it equals the configured host, neither message occurs. So
  at most one of the two messages occurs.
\<close>

theorem C7_emulator_env:
  assumes "cfg = mergedConfig d u" and "\<not> isClientSide e"
    and "field cfg ''firebaseAuthEmulatorHost'' = JStr h" and "h \<noteq> []"
  shows "\<exists>r. validateConfig e cfg = Inr r
    \<and> (case FIREBASE_AUTH_EMULATOR_HOST e of
          None \<Rightarrow>
            count_list (errors r) msgEnvHostUnset = 1
            \<and> count_list (errors r) msgEnvHostMismatch = 0
        | Some v \<Rightarrow>
            if v = [] then
              count_list (errors r) msgEnvHostUnset = 1
              \<and> count_list (errors r) msgEnvHostMismatch = 0
            else if v \<noteq> h then
              count_list (errors r) msgEnvHostUnset = 0
              \<and> count_list (errors r) msgEnvHostMismatch = 1
            else
              count_list (errors r) msgEnvHostUnset = 0
              \<and> count_list (errors r) msgEnvHostMismatch = 0)"
proof -
  have "validateConfig e cfg = Inr \<lparr>isValid = (allErrors e cfg = []), errors = allErrors e cfg\<rparr>"
    using assms(1) hostTyped_string [OF assms(3)] by (rule validateConfig_merged)
  moreover have "count_list (allErrors e cfg) msgEnvHostUnset
      = (if \<not> truthy (envHost e) then 1 else 0)"
    by (simp add: count_allErrors_rest count_restErrors_env [OF assms(3,4,2)])
  moreover have "count_list (allErrors e cfg) msgEnvHostMismatch
      = (if truthy (envHost e) \<and> envHost e \<noteq> JStr h then 1 else 0)"
    by (simp add: count_allErrors_rest count_restErrors_env [OF assms(3,4,2)])
  ultimately show ?thesis
    by (simp add: envHost_def split: option.splits)
qed

theorem C7_emulator_env_witness:
  "\<not> isClientSide exampleServer
   \<and> field (mergedConfig exampleDefaultConfig
        (exampleUserConfig(''firebaseAuthEmulatorHost'' \<mapsto> JStr ''localhost:9099'')))
        ''firebaseAuthEmulatorHost'' = JStr ''localhost:9099''
   \<and> (\<exists>r. validateConfig exampleServer
               (mergedConfig exampleDefaultConfig
                  (exampleUserConfig(''firebaseAuthEmulatorHost'' \<mapsto> JStr ''localhost:9099'')))
             = Inr r
           \<and> count_list (errors r) msgEnvHostUnset = 1
           \<and> count_list (errors r) msgEnvHostMismatch = 0)
   \<and> (\<exists>r. validateConfig
               \<lparr>isClientSide = False, FIREBASE_AUTH_EMULATOR_HOST = Some ''127.0.0.1:9099''\<rparr>
               (mergedConfig exampleDefaultConfig
                  (exampleUserConfig(''firebaseAuthEmulatorHost'' \<mapsto> JStr ''localhost:9099'')))
             = Inr r
           \<and> count_list (errors r) msgEnvHostUnset = 0
           \<and> count_list (errors r) msgEnvHostMismatch = 1)
   \<and> (\<exists>r. validateConfig
               \<lparr>isClientSide = False, FIREBASE_AUTH_EMULATOR_HOST = Some ''localhost:9099''\<rparr>
               (mergedConfig exampleDefaultConfig
                  (exampleUserConfig(''firebaseAuthEmulatorHost'' \<mapsto> JStr ''localhost:9099'')))
             = Inr r
           \<and> count_list (errors r) msgEnvHostUnset = 0
           \<and> count_list (errors r) msgEnvHostMismatch = 0)"
proof -
  let ?u = "exampleUserConfig(''firebaseAuthEmulatorHost'' \<mapsto> JStr ''localhost:9099'')"
  have f: "field (mergedConfig exampleDefaultConfig ?u) ''firebaseAuthEmulatorHost''
      = JStr ''localhost:9099''"
    by (simp add: eval_defs)
  have s: "\<not> isClientSide exampleServer"
    "\<not> isClientSide \<lparr>isClientSide = False, FIREBASE_AUTH_EMULATOR_HOST = v\<rparr>" for v
    by (simp_all add: exampleServer_def)
  have n: "''localhost:9099'' \<noteq> []"
    by simp
  show ?thesis
    using C7_emulator_env [OF refl s(1) f n]
      C7_emulator_env [OF refl s(2) f n, of "Some ''127.0.0.1:9099''"]
      C7_emulator_env [OF refl s(2) f n, of "Some ''localhost:9099''"] s(1) f
    by (simp add: exampleServer_def)
qed

text \<open>
  C7 as the specification words it fails for a variable that is set to the empty string: it
  is set, it differs from the configured host \<open>localhost:9099\<close>, and the result holds the
  should-be-set message and no mismatch message.
\<close>

theorem C7_counterexample:
  "validateConfig \<lparr>isClientSide = False, FIREBASE_AUTH_EMULATOR_HOST = Some ''''\<rparr>
     (mergedConfig exampleDefaultConfig
        (exampleUserConfig(''firebaseAuthEmulatorHost'' \<mapsto> JStr ''localhost:9099'')))
     = Inr \<lparr>isValid = False, errors = [msgEnvHostUnset]\<rparr>
   \<and> msgEnvHostMismatch \<noteq> msgEnvHostUnset
   \<and> '''' \<noteq> ''localhost:9099''"
  by (simp add: eval_defs messages_neq)

section \<open>The redacted log\<close>

text \<open>
  C8. The object that \<^verbatim>\<open>setConfig\<close> hands to the debug log is the caller's configuration
  with only the secrets replaced. Every property other than \<^verbatim>\<open>cookies\<close> and
  \<^verbatim>\<open>firebaseAdminInitConfig\<close> is the caller's, and no other property is added. Its
  \<^verbatim>\<open>cookies\<close> are the caller's cookie options with \<^verbatim>\<open>keys\<close> set to the placeholder list
  \<^verbatim>\<open>['hidden']\<close>. Its \<^verbatim>\<open>firebaseAdminInitConfig\<close> is the caller's when that is unset;
  otherwise it is a copy of the caller's, in which a credential that is set is a copy of the
  caller's credential with \<^verbatim>\<open>privateKey\<close> and \<^verbatim>\<open>clientEmail\<close> set to the placeholder
  string \<^verbatim>\<open>'hidden'\<close>. So the values the caller gave for the signing keys, the private key
  and the client email are replaced by placeholders, the rest is the caller's, and nothing is
  added; the logged object is the one for the caller's configuration with those secrets
  deleted (\<open>withoutSecrets\<close>). The log line is written first: it is in the log after the
  call whatever validation answers, also when the call throws.
\<close>

theorem C8_redaction:
  "(\<forall>k. k \<noteq> ''cookies'' \<and> k \<noteq> ''firebaseAdminInitConfig'' \<longrightarrow>
        replacePrivateValues u k = u k)
   \<and> replacePrivateValues u ''cookies''
       = Some (JObj ((spread (field u ''cookies''))(''keys'' \<mapsto> JArr [JStr ''hidden''])))
   \<and> (\<not> truthy (field u ''firebaseAdminInitConfig'') \<longrightarrow>
        replacePrivateValues u ''firebaseAdminInitConfig'' = u ''firebaseAdminInitConfig'')
   \<and> (truthy (field u ''firebaseAdminInitConfig'')
        \<and> \<not> truthy (propOf (field u ''firebaseAdminInitConfig'') ''credential'') \<longrightarrow>
        replacePrivateValues u ''firebaseAdminInitConfig''
          = Some (JObj (spread (field u ''firebaseAdminInitConfig''))))
   \<and> (truthy (field u ''firebaseAdminInitConfig'')
        \<and> truthy (propOf (field u ''firebaseAdminInitConfig'') ''credential'') \<longrightarrow>
        replacePrivateValues u ''firebaseAdminInitConfig''
          = Some (JObj ((spread (field u ''firebaseAdminInitConfig''))
               (''credential'' \<mapsto>
                  JObj ((spread (propOf (field u ''firebaseAdminInitConfig'') ''credential''))
                          (''privateKey'' \<mapsto> JStr ''hidden'',
                           ''clientEmail'' \<mapsto> JStr ''hidden''))))))
   \<and> propOf (field (replacePrivateValues u) ''cookies'') ''keys'' = JArr [JStr ''hidden'']
   \<and> (truthy (field u ''firebaseAdminInitConfig'')
        \<and> truthy (propOf (field u ''firebaseAdminInitConfig'') ''credential'') \<longrightarrow>
        propOf (propOf (field (replacePrivateValues u) ''firebaseAdminInitConfig'') ''credential'')
               ''privateKey'' = JStr ''hidden''
        \<and> propOf (propOf (field (replacePrivateValues u) ''firebaseAdminInitConfig'')
                     ''credential'')
               ''clientEmail'' = JStr ''hidden'')
   \<and> replacePrivateValues (withoutSecrets u) = replacePrivateValues u
   \<and> debugLog (snd (setConfig d e u s))
       = debugLog s @ [[JStr ''[init] Setting config with provided value:'',
                        JObj (replacePrivateValues u)]]"
proof (intro conjI allI impI)
  fix k :: string
  assume "k \<noteq> ''cookies'' \<and> k \<noteq> ''firebaseAdminInitConfig''"
  then show "replacePrivateValues u k = u k"
    by (simp add: replaced_other)
next
  show "replacePrivateValues u ''cookies''
       = Some (JObj ((spread (field u ''cookies''))(''keys'' \<mapsto> JArr [JStr ''hidden''])))"
    by (rule replaced_cookies_entry)
next
  assume "\<not> truthy (field u ''firebaseAdminInitConfig'')"
  then show "replacePrivateValues u ''firebaseAdminInitConfig'' = u ''firebaseAdminInitConfig''"
    by (simp add: replaced_admin_entry)
next
  assume "truthy (field u ''firebaseAdminInitConfig'')
        \<and> \<not> truthy (propOf (field u ''firebaseAdminInitConfig'') ''credential'')"
  then show "replacePrivateValues u ''firebaseAdminInitConfig''
          = Some (JObj (spread (field u ''firebaseAdminInitConfig'')))"
    by (simp add: replaced_admin_entry)
next
  assume "truthy (field u ''firebaseAdminInitConfig'')
        \<and> truthy (propOf (field u ''firebaseAdminInitConfig'') ''credential'')"
  then show "replacePrivateValues u ''firebaseAdminInitConfig''
          = Some (JObj ((spread (field u ''firebaseAdminInitConfig''))
               (''credential'' \<mapsto>
                  JObj ((spread (propOf (field u ''firebaseAdminInitConfig'') ''credential''))
                          (''privateKey'' \<mapsto> JStr ''hidden'',
                           ''clientEmail'' \<mapsto> JStr ''hidden'')))))"
    by (simp add: replaced_admin_entry)
next
  show "propOf (field (replacePrivateValues u) ''cookies'') ''keys'' = JArr [JStr ''hidden'']"
    by (simp add: replaced_cookies field_upd)
next
  assume a: "truthy (field u ''firebaseAdminInitConfig'')
        \<and> truthy (propOf (field u ''firebaseAdminInitConfig'') ''credential'')"
  then show "propOf (propOf (field (replacePrivateValues u) ''firebaseAdminInitConfig'')
      ''credential'') ''privateKey'' = JStr ''hidden''"
    by (simp add: replaced_admin field_upd)
  from a show "propOf (propOf (field (replacePrivateValues u) ''firebaseAdminInitConfig'')
      ''credential'') ''clientEmail'' = JStr ''hidden''"
    by (simp add: replaced_admin field_upd)
next
  show "replacePrivateValues (withoutSecrets u) = replacePrivateValues u"
    by (rule replaced_withoutSecrets)
next
  show "debugLog (snd (setConfig d e u s))
       = debugLog s @ [[JStr ''[init] Setting config with provided value:'',
                        JObj (replacePrivateValues u)]]"
    by (rule setConfig_log)
qed

theorem C8_redaction_witness:
  "propOf (field exampleUserConfig ''cookies'') ''keys'' = JArr [JStr ''signing-secret'']
   \<and> propOf (propOf (field exampleUserConfig ''firebaseAdminInitConfig'') ''credential'')
        ''privateKey'' = JStr ''PRIVATE-KEY''
   \<and> truthy (field exampleUserConfig ''firebaseAdminInitConfig'')
   \<and> truthy (propOf (field exampleUserConfig ''firebaseAdminInitConfig'') ''credential'')
   \<and> ''loginAPIEndpoint'' \<noteq> ''cookies'' \<and> ''loginAPIEndpoint'' \<noteq> ''firebaseAdminInitConfig''
   \<and> replacePrivateValues exampleUserConfig ''loginAPIEndpoint'' = Some (JStr ''/api/login'')
   \<and> ''rawCookies'' \<noteq> ''cookies'' \<and> ''rawCookies'' \<noteq> ''firebaseAdminInitConfig''
   \<and> replacePrivateValues exampleUserConfig ''rawCookies'' = None
   \<and> replacePrivateValues exampleUserConfig ''cookies''
       = Some (JObj [''name'' \<mapsto> JStr ''Demo'', ''keys'' \<mapsto> JArr [JStr ''hidden'']])
   \<and> replacePrivateValues exampleUserConfig ''firebaseAdminInitConfig''
       = Some (JObj [''credential'' \<mapsto>
                JObj [''projectId'' \<mapsto> JStr ''demo'',
                      ''clientEmail'' \<mapsto> JStr ''hidden'',
                      ''privateKey'' \<mapsto> JStr ''hidden'']])
   \<and> (\<exists>err. fst (setConfig exampleDefaultConfig exampleClient exampleUserConfig initialState)
               = Inl err)
   \<and> debugLog (snd (setConfig exampleDefaultConfig exampleClient exampleUserConfig initialState))
       = [[JStr ''[init] Setting config with provided value:'',
           JObj (replacePrivateValues exampleUserConfig)]]"
proof -
  note r = C8_redaction [of exampleUserConfig exampleDefaultConfig exampleClient initialState]
  have a: "truthy (field exampleUserConfig ''firebaseAdminInitConfig'')"
    "truthy (propOf (field exampleUserConfig ''firebaseAdminInitConfig'') ''credential'')"
    "propOf (field exampleUserConfig ''cookies'') ''keys'' = JArr [JStr ''signing-secret'']"
    "propOf (propOf (field exampleUserConfig ''firebaseAdminInitConfig'') ''credential'')
        ''privateKey'' = JStr ''PRIVATE-KEY''"
    by (simp_all add: exampleUserConfig_def field_def)
  have n: "''loginAPIEndpoint'' \<noteq> ''cookies'' \<and> ''loginAPIEndpoint'' \<noteq> ''firebaseAdminInitConfig''"
    "''rawCookies'' \<noteq> ''cookies'' \<and> ''rawCookies'' \<noteq> ''firebaseAdminInitConfig''"
    by simp_all
  have "replacePrivateValues exampleUserConfig ''loginAPIEndpoint'' = Some (JStr ''/api/login'')"
    using r [THEN conjunct1, rule_format, OF n(1)] by (simp add: exampleUserConfig_def)
  moreover have "replacePrivateValues exampleUserConfig ''rawCookies'' = None"
    using r [THEN conjunct1, rule_format, OF n(2)] by (simp add: exampleUserConfig_def)
  moreover have "replacePrivateValues exampleUserConfig ''cookies''
       = Some (JObj [''name'' \<mapsto> JStr ''Demo'', ''keys'' \<mapsto> JArr [JStr ''hidden'']])"
    using r [THEN conjunct2, THEN conjunct1] by (simp add: exampleUserConfig_def field_def)
  moreover have "replacePrivateValues exampleUserConfig ''firebaseAdminInitConfig''
       = Some (JObj [''credential'' \<mapsto>
                JObj [''projectId'' \<mapsto> JStr ''demo'',
                      ''clientEmail'' \<mapsto> JStr ''hidden'',
                      ''privateKey'' \<mapsto> JStr ''hidden'']])"
    using r [THEN conjunct2, THEN conjunct2, THEN conjunct2, THEN conjunct2, THEN conjunct1,
        rule_format, OF conjI, OF a(1,2)]
    by (simp add: exampleUserConfig_def field_def fun_upd_twist)
  moreover have "debugLog (snd (setConfig exampleDefaultConfig exampleClient exampleUserConfig
      initialState))
       = [[JStr ''[init] Setting config with provided value:'',
           JObj (replacePrivateValues exampleUserConfig)]]"
    using r by (simp add: initialState_def)
  ultimately show ?thesis
    using a n setConfig_rejects [OF example_accepts(3), of initialState] by simp
qed

section \<open>The prefix of the emulator host\<close>

text \<open>
  C9, as the code has it. For a merged configuration whose \<^verbatim>\<open>firebaseAuthEmulatorHost\<close>
  is a non-empty string, in either execution context: the validation result contains the
  host-prefix message exactly once when the host begins with the four characters
  \<open>http\<close>, and does not contain it otherwise (for \<open>localhost:9099\<close>, say).
\<close>

theorem C9_host_prefix:
  assumes "cfg = mergedConfig d u"
    and "field cfg ''firebaseAuthEmulatorHost'' = JStr h" and "h \<noteq> []"
  shows "\<exists>r. validateConfig e cfg = Inr r
    \<and> count_list (errors r) msgHostPrefix = (if prefix ''http'' h then 1 else 0)"
proof -
  have "validateConfig e cfg = Inr \<lparr>isValid = (allErrors e cfg = []), errors = allErrors e cfg\<rparr>"
    using assms(1) hostTyped_string [OF assms(2)] by (rule validateConfig_merged)
  moreover have "count_list (hostErrors cfg) msgHostPrefix = (if prefix ''http'' h then 1 else 0)"
    using assms(2,3) take_eq_prefix [of "''http''" h] by (simp add: hostErrors_def)
  ultimately show ?thesis
    by (simp add: count_allErrors_host)
qed

theorem C9_host_prefix_witness:
  "field (mergedConfig exampleDefaultConfig
        (exampleUserConfig(''firebaseAuthEmulatorHost'' \<mapsto> JStr ''http://localhost:9099'')))
        ''firebaseAuthEmulatorHost'' = JStr ''http://localhost:9099''
   \<and> (\<exists>r. validateConfig exampleClient
               (mergedConfig exampleDefaultConfig
                  (exampleUserConfig(''firebaseAuthEmulatorHost'' \<mapsto> JStr ''http://localhost:9099'')))
             = Inr r
           \<and> count_list (errors r) msgHostPrefix = 1)
   \<and> field (mergedConfig exampleDefaultConfig
        (exampleUserConfig(''firebaseAuthEmulatorHost'' \<mapsto> JStr ''localhost:9099'')))
        ''firebaseAuthEmulatorHost'' = JStr ''localhost:9099''
   \<and> (\<exists>r. validateConfig exampleClient
               (mergedConfig exampleDefaultConfig
                  (exampleUserConfig(''firebaseAuthEmulatorHost'' \<mapsto> JStr ''localhost:9099'')))
             = Inr r
           \<and> count_list (errors r) msgHostPrefix = 0)"
proof -
  let ?u = "\<lambda>h. exampleUserConfig(''firebaseAuthEmulatorHost'' \<mapsto> JStr h)"
  have f: "field (mergedConfig exampleDefaultConfig (?u h)) ''firebaseAuthEmulatorHost'' = JStr h"
    for h
    by (simp add: eval_defs)
  have n: "''http://localhost:9099'' \<noteq> []" "''localhost:9099'' \<noteq> []"
    by simp_all
  show ?thesis
    using C9_host_prefix [OF refl f n(1), of exampleClient]
      C9_host_prefix [OF refl f n(2), of exampleClient] f
    by simp
qed

text \<open>
  C9 as the specification words it fails for a host name that begins with \<open>http\<close>:
  \<open>httphost:9099\<close> has no URL scheme prefix, and the result holds the host-prefix
  message.
\<close>

theorem C9_counterexample:
  "validateConfig \<lparr>isClientSide = False, FIREBASE_AUTH_EMULATOR_HOST = Some ''httphost:9099''\<rparr>
     (mergedConfig exampleDefaultConfig
        (exampleUserConfig(''firebaseAuthEmulatorHost'' \<mapsto> JStr ''httphost:9099'')))
     = Inr \<lparr>isValid = False, errors = [msgHostPrefix]\<rparr>
   \<and> \<not> specSchemePrefix ''httphost:9099''"
  by (simp add: eval_defs specSchemePrefix_def)

section \<open>The log does not depend on the secrets\<close>


end
